theory Spec2Isabelle
  imports Main
begin

section \<open>Python values: text and bytes\<close>

text \<open>
  A Python \<open>str\<close> is a sequence of Unicode code points; it is modelled as a list of
  code points (natural numbers).  A Python \<open>bytes\<close> object is a list of 8-bit
  characters.  \<open>py\<close> turns an ASCII literal into the text it denotes; the few non-ASCII
  letters of the source (\<open>U+00E1\<close>, \<open>U+00ED\<close>, \<open>U+00F3\<close>, \<open>U+00D3\<close>) are written
  as their code points.
\<close>

type_synonym ustr = "nat list"
type_synonym bytes = "char list"

definition py :: "string \<Rightarrow> ustr" where
  "py s = map of_char s"

text \<open>\<open>s.startswith(p)\<close> and the slice \<open>b[i:j]\<close> (for \<open>0 \<le> i \<le> j\<close>); both are total in
  Python: a slice beyond the end is cut short.\<close>

definition startswith :: "'a list \<Rightarrow> 'a list \<Rightarrow> bool" where
  "startswith s p = (take (length p) s = p)"

definition slice :: "nat \<Rightarrow> nat \<Rightarrow> 'a list \<Rightarrow> 'a list" where
  "slice i j xs = take (j - i) (drop i xs)"

text \<open>\<open>needle in haystack\<close> on \<open>bytes\<close>: the needle occurs as a contiguous run.\<close>

fun contains :: "'a list \<Rightarrow> 'a list \<Rightarrow> bool" where
  "contains needle [] = (needle = [])"
| "contains needle (x # xs) = (startswith (x # xs) needle \<or> contains needle xs)"

section \<open>\<open>detect_file_type\<close>: the file type from the magic bytes\<close>

definition PNG_MAGIC :: bytes where
  "PNG_MAGIC = [CHR 0x89, CHR ''P'', CHR ''N'', CHR ''G'', CHR 0x0D, CHR 0x0A, CHR 0x1A, CHR 0x0A]"

definition JPEG_MAGIC :: bytes where
  "JPEG_MAGIC = [CHR 0xFF, CHR 0xD8]"

definition ZIP_MAGIC :: bytes where
  "ZIP_MAGIC = [CHR ''P'', CHR ''K'', CHR 0x03, CHR 0x04]"

definition OLE2_MAGIC :: bytes where
  "OLE2_MAGIC = [CHR 0xD0, CHR 0xCF, CHR 0x11, CHR 0xE0, CHR 0xA1, CHR 0xB1, CHR 0x1A, CHR 0xE1]"

definition detect_file_type :: "bytes \<Rightarrow> ustr" where
  "detect_file_type file_bytes =
     (if take 4 file_bytes = ''%PDF'' then py ''pdf''
      else if take 8 file_bytes = PNG_MAGIC then py ''png''
      else if take 2 file_bytes = JPEG_MAGIC then py ''jpeg''
      else if take 4 file_bytes = ''GIF8'' then py ''gif''
      else if take 4 file_bytes = ''RIFF'' \<and> slice 8 12 file_bytes = ''WEBP'' then py ''webp''
      else if take 4 file_bytes = ZIP_MAGIC then
        (if contains ''word/'' (take 2000 file_bytes) then py ''docx''
         else if contains ''xl/'' (take 2000 file_bytes) then py ''xlsx''
         else if contains ''ppt/'' (take 2000 file_bytes) then py ''pptx''
         else py ''zip'')
      else if take 8 file_bytes = OLE2_MAGIC then py ''doc''
      else py ''unknown'')"

text \<open>The tags \<open>detect_file_type\<close> can return.\<close>

definition DETECTED_FORMATS :: "ustr list" where
  "DETECTED_FORMATS =
     [py ''pdf'', py ''png'', py ''jpeg'', py ''gif'', py ''webp'', py ''docx'', py ''doc'',
      py ''xlsx'', py ''pptx'', py ''zip'', py ''unknown'']"

section \<open>Python string methods used by the parser\<close>

text \<open>
  \<open>xs[i]\<close> raises \<open>IndexError\<close> when \<open>i\<close> is out of range.
\<close>

datatype py_error = IndexError

definition py_index :: "'a list \<Rightarrow> nat \<Rightarrow> py_error + 'a" where
  "py_index xs i = (if i < length xs then Inr (xs ! i) else Inl IndexError)"

text \<open>
  \<open>str.strip()\<close> removes the leading and trailing white space; \<open>py_isspace\<close> lists the
  code points that Python counts as white space.
\<close>

definition py_isspace :: "nat \<Rightarrow> bool" where
  "py_isspace c =
     ((0x09 \<le> c \<and> c \<le> 0x0D) \<or> (0x1C \<le> c \<and> c \<le> 0x20) \<or> c = 0x85 \<or> c = 0xA0 \<or>
      c = 0x1680 \<or> (0x2000 \<le> c \<and> c \<le> 0x200A) \<or> c = 0x2028 \<or> c = 0x2029 \<or>
      c = 0x202F \<or> c = 0x205F \<or> c = 0x3000)"

definition py_strip :: "ustr \<Rightarrow> ustr" where
  "py_strip s = rev (dropWhile py_isspace (rev (dropWhile py_isspace s)))"

text \<open>
  \<open>str.upper()\<close> and \<open>str.lower()\<close> map every code point to its upper-case or lower-case
  image, which can be more than one code point (\<open>U+00DF\<close> becomes \<open>SS\<close>).  The tables are
  those of Python 3 for every code point below \<open>U+0100\<close> and for every code point above
  whose image contains a code point below \<open>U+0100\<close>; the remaining cased letters (Greek,
  Cyrillic, ...) are left unchanged here.  Their images contain no ASCII letter and no colon,
  so which lines the parser recognises does not depend on them.
\<close>

definition upper_cp :: "nat \<Rightarrow> ustr" where
  "upper_cp c =
     (if (0x61 \<le> c \<and> c \<le> 0x7A) \<or> (0xE0 \<le> c \<and> c \<le> 0xF6) \<or> (0xF8 \<le> c \<and> c \<le> 0xFE)
      then [c - 0x20]
      else if c = 0xB5 then [0x39C]
      else if c = 0xDF then [0x53, 0x53]
      else if c = 0xFF then [0x178]
      else if c = 0x131 then [0x49]
      else if c = 0x149 then [0x2BC, 0x4E]
      else if c = 0x17F then [0x53]
      else if c = 0x1F0 then [0x4A, 0x30C]
      else if c = 0x1E96 then [0x48, 0x331]
      else if c = 0x1E97 then [0x54, 0x308]
      else if c = 0x1E98 then [0x57, 0x30A]
      else if c = 0x1E99 then [0x59, 0x30A]
      else if c = 0x1E9A then [0x41, 0x2BE]
      else if c = 0xFB00 then [0x46, 0x46]
      else if c = 0xFB01 then [0x46, 0x49]
      else if c = 0xFB02 then [0x46, 0x4C]
      else if c = 0xFB03 then [0x46, 0x46, 0x49]
      else if c = 0xFB04 then [0x46, 0x46, 0x4C]
      else if c = 0xFB05 \<or> c = 0xFB06 then [0x53, 0x54]
      else [c])"

definition lower_cp :: "nat \<Rightarrow> ustr" where
  "lower_cp c =
     (if (0x41 \<le> c \<and> c \<le> 0x5A) \<or> (0xC0 \<le> c \<and> c \<le> 0xD6) \<or> (0xD8 \<le> c \<and> c \<le> 0xDE)
      then [c + 0x20]
      else if c = 0x130 then [0x69, 0x307]
      else if c = 0x178 then [0xFF]
      else if c = 0x1E9E then [0xDF]
      else if c = 0x212A then [0x6B]
      else if c = 0x212B then [0xE5]
      else [c])"

definition py_upper :: "ustr \<Rightarrow> ustr" where
  "py_upper s = concat (map upper_cp s)"

definition py_lower :: "ustr \<Rightarrow> ustr" where
  "py_lower s = concat (map lower_cp s)"

text \<open>
  \<open>s.split(sep)\<close> for a one-character separator: the pieces between the separators, at least
  one piece.  The recursive call never returns the empty list, so the first branch of the
  \<open>case\<close> is never taken.  \<open>s.split(sep, 1)\<close> splits at the first separator only.
\<close>

fun split_on :: "nat \<Rightarrow> ustr \<Rightarrow> ustr list" where
  "split_on sep [] = [[]]"
| "split_on sep (c # cs) =
     (if c = sep then [] # split_on sep cs
      else (case split_on sep cs of [] \<Rightarrow> [[c]] | l # ls \<Rightarrow> (c # l) # ls))"

definition split_once :: "nat \<Rightarrow> ustr \<Rightarrow> ustr list" where
  "split_once sep s =
     (if sep \<in> set s then [takeWhile (\<lambda>c. c \<noteq> sep) s, tl (dropWhile (\<lambda>c. c \<noteq> sep) s)]
      else [s])"

section \<open>\<open>parse_clasificacion\<close>: the classification answer of the vision model\<close>

definition TIPOS_DOCUMENTO :: "ustr list" where
  "TIPOS_DOCUMENTO =
     [py ''CSF'', py ''INE'', py ''Pasaporte'', py ''T'' @ [0xED] @ py ''tulo de propiedad'',
      py ''Recibo de luz'', py ''Recibo de agua'', py ''Recibo de gas'', py ''Predial'',
      py ''Acta constitutiva'', py ''Poder notarial'', py ''Comprobante de domicilio'',
      py ''Estado de cuenta bancario'', py ''CURP'', py ''Acta de nacimiento'',
      py ''Comprobante de ingresos'', py ''Contrato'', py ''Factura'', py ''Otro'']"

text \<open>The result \<open>(tipo, confianza, descripcion)\<close>.\<close>

type_synonym clasificacion = "ustr \<times> ustr \<times> ustr"

text \<open>\<open>line.split(":", 1)[1]\<close>: the text after the first colon, \<open>IndexError\<close> without a colon.\<close>

definition after_colon :: "ustr \<Rightarrow> py_error + ustr" where
  "after_colon line = py_index (split_once 0x3A line) 1"

text \<open>The body of the loop over the lines, and the loop.\<close>

definition parse_line :: "clasificacion \<Rightarrow> ustr \<Rightarrow> py_error + clasificacion" where
  "parse_line st line =
     (case st of (tipo, confianza, descripcion) \<Rightarrow>
        let line_upper = py_upper line in
        if startswith line_upper (py ''TIPO:'') then
          (case after_colon line of
             Inl e \<Rightarrow> Inl e
           | Inr v \<Rightarrow> Inr (py_strip v, confianza, descripcion))
        else if startswith line_upper (py ''CONFIANZA:'') then
          (case after_colon line of
             Inl e \<Rightarrow> Inl e
           | Inr v \<Rightarrow> Inr (tipo, py_lower (py_strip v), descripcion))
        else if startswith line_upper (py ''DESCRIPCION:'') \<or>
                startswith line_upper (py ''DESCRIPCI'' @ [0xD3] @ py ''N:'') then
          (case after_colon line of
             Inl e \<Rightarrow> Inl e
           | Inr v \<Rightarrow> Inr (tipo, confianza, py_strip v))
        else Inr st)"

fun parse_lines :: "clasificacion \<Rightarrow> ustr list \<Rightarrow> py_error + clasificacion" where
  "parse_lines st [] = Inr st"
| "parse_lines st (line # lines) =
     (case parse_line st line of Inl e \<Rightarrow> Inl e | Inr st' \<Rightarrow> parse_lines st' lines)"

definition parse_clasificacion :: "ustr \<Rightarrow> py_error + clasificacion" where
  "parse_clasificacion texto =
     (case parse_lines (py ''Otro'', py ''baja'', texto) (split_on 0x0A (py_strip texto)) of
        Inl e \<Rightarrow> Inl e
      | Inr (tipo, confianza, descripcion) \<Rightarrow>
          Inr (if tipo \<in> set TIPOS_DOCUMENTO then tipo else py ''Otro'', confianza, descripcion))"


text \<open>
  What the parser reads: the text after the first colon of a line, the three kinds of
  recognised lines, the lines of the stripped answer, and the value of the last line of a kind
  (or a default when there is none).  \<open>NIVELES\<close> are the three confidence words of the prompt.
\<close>

definition value_of :: "ustr \<Rightarrow> ustr" where
  "value_of line = tl (dropWhile (\<lambda>c. c \<noteq> 0x3A) line)"

definition is_tipo :: "ustr \<Rightarrow> bool" where
  "is_tipo line = startswith (py_upper line) (py ''TIPO:'')"

definition is_confianza :: "ustr \<Rightarrow> bool" where
  "is_confianza line = startswith (py_upper line) (py ''CONFIANZA:'')"

definition is_descripcion :: "ustr \<Rightarrow> bool" where
  "is_descripcion line =
     (startswith (py_upper line) (py ''DESCRIPCION:'') \<or>
      startswith (py_upper line) (py ''DESCRIPCI'' @ [0xD3] @ py ''N:''))"

definition last_wins :: "(ustr \<Rightarrow> bool) \<Rightarrow> (ustr \<Rightarrow> ustr) \<Rightarrow> ustr \<Rightarrow> ustr list \<Rightarrow> ustr" where
  "last_wins P f d lines = (if filter P lines = [] then d else f (last (filter P lines)))"

definition lines_of :: "ustr \<Rightarrow> ustr list" where
  "lines_of texto = split_on 0x0A (py_strip texto)"



section \<open>The collaborators and the log of external calls\<close>

text \<open>
  The service calls three HTTP services (speech to text, the language model with and
  without images, text to speech) and three local programs (\<open>ffmpeg\<close>, LibreOffice, the PDF
  rasteriser of \<open>pdf2image\<close>).  They are parameters of the model: a \<open>world\<close> gives the answer
  of each collaborator to each request.  Within one request no collaborator is asked the
  same question twice (the vision prompts of a PDF differ by their page number), so a
  function of the arguments loses no behaviour.  Every external call is appended to a log.
\<close>

text \<open>
  The outcome of \<open>client.post\<close>: the client raised (no connection, a timeout, a body that is
  not JSON; the text is \<open>str(e)\<close>), or a response with its \<open>status_code\<close>, its \<open>text\<close> and its
  decoded body.
\<close>

datatype 'a http = Raised ustr | Response nat ustr 'a

text \<open>The JSON object of the speech-to-text service: the keys \<open>texto\<close> and \<open>idioma\<close>, if present.\<close>

record stt_json =
  texto_key :: "ustr option"
  idioma_key :: "ustr option"

text \<open>
  The outcome of \<open>subprocess.run\<close> on LibreOffice: it raised (the 120 s timeout), or it exited with
  a return code and a standard error text, leaving \<open>input.pdf\<close> or not.
\<close>

datatype soffice = SofficeRaised ustr | SofficeExit int ustr "bytes option"

record world =
  post_stt :: "bytes \<Rightarrow> ustr \<Rightarrow> stt_json http"
  post_llm :: "ustr \<Rightarrow> ustr \<Rightarrow> ustr option http"
  post_vision :: "ustr \<Rightarrow> ustr \<Rightarrow> ustr \<Rightarrow> ustr option http"
  post_tts :: "ustr \<Rightarrow> ustr \<Rightarrow> bytes http"
  run_ffmpeg :: "bytes \<Rightarrow> ustr + bytes"
  run_libreoffice :: "ustr \<Rightarrow> bytes \<Rightarrow> soffice"
  convert_from_bytes :: "bytes \<Rightarrow> ustr + bytes list"
  b64encode :: "bytes \<Rightarrow> ustr"
  SYSTEM_PROMPT :: ustr

text \<open>
  The arguments of the calls: the audio and its file name; the system and user content of a
  chat; the system content, the prompt and the base64 image of a vision chat; the text and
  the language of a synthesis; the WAV bytes; the extension and the bytes of an office file;
  the bytes of a PDF.
\<close>

datatype call =
    PostSTT bytes ustr
  | PostLLM ustr ustr
  | PostVision ustr ustr ustr
  | PostTTS ustr ustr
  | RunFfmpeg bytes
  | RunLibreOffice ustr bytes
  | RunPdf2Image bytes

text \<open>
  What a handler can raise: \<open>HTTPException(status_code, detail)\<close>, or any other exception, of
  which only \<open>str(e)\<close> is ever read.
\<close>

datatype exc = HTTPException nat ustr | Exception ustr

text \<open>
  A computation takes the log so far and gives a value or an exception, and the log after it.
  \<open>io_try\<close> is the handler that closes every endpoint:
  \<open>except HTTPException: raise\<close>, \<open>except Exception as e: raise HTTPException(500, label + str(e))\<close>.
\<close>

type_synonym 'a io = "call list \<Rightarrow> (exc + 'a) \<times> call list"

definition io_return :: "'a \<Rightarrow> 'a io" where
  "io_return x tr = (Inr x, tr)"

definition io_raise :: "exc \<Rightarrow> 'a io" where
  "io_raise e tr = (Inl e, tr)"

definition io_bind :: "'a io \<Rightarrow> ('a \<Rightarrow> 'b io) \<Rightarrow> 'b io" where
  "io_bind m f tr = (case m tr of (Inl e, tr') \<Rightarrow> (Inl e, tr') | (Inr x, tr') \<Rightarrow> f x tr')"

definition io_call :: "call \<Rightarrow> 'a \<Rightarrow> 'a io" where
  "io_call c answer tr = (Inr answer, tr @ [c])"

definition io_try :: "ustr \<Rightarrow> 'a io \<Rightarrow> 'a io" where
  "io_try label m tr =
     (case m tr of
        (Inl (Exception msg), tr') \<Rightarrow> (Inl (HTTPException 500 (label @ msg)), tr')
      | (r, tr') \<Rightarrow> (r, tr'))"

text \<open>\<open>x or default\<close> on an optional text: \<open>None\<close> and the empty text are false.\<close>

definition or_default :: "ustr option \<Rightarrow> ustr \<Rightarrow> ustr" where
  "or_default x d = (case x of None \<Rightarrow> d | Some s \<Rightarrow> if s = [] then d else s)"

text \<open>
  A parameter declared \<open>Form(default=d)\<close>: FastAPI passes the default when the form field is
  missing or empty, and the field otherwise.
\<close>

definition Form_default :: "ustr \<Rightarrow> ustr option \<Rightarrow> ustr" where
  "Form_default d field = (case field of None \<Rightarrow> d | Some s \<Rightarrow> if s = [] then d else s)"

text \<open>\<open>dict.get(key, default)\<close> on a key that is present or not.\<close>

definition get_default :: "ustr option \<Rightarrow> ustr \<Rightarrow> ustr" where
  "get_default x d = (case x of None \<Rightarrow> d | Some s \<Rightarrow> s)"

text \<open>\<open>str(n)\<close> for a natural number, and \<open>sep.join(xs)\<close>.\<close>

fun str_nat :: "nat \<Rightarrow> ustr" where
  "str_nat n = (if n < 10 then [0x30 + n] else str_nat (n div 10) @ [0x30 + n mod 10])"

fun py_join :: "ustr \<Rightarrow> ustr list \<Rightarrow> ustr" where
  "py_join sep [] = []"
| "py_join sep [x] = x"
| "py_join sep (x # y # ys) = x @ sep @ py_join sep (y # ys)"

section \<open>The helpers of the endpoints\<close>

definition wav_to_ogg_base64 :: "world \<Rightarrow> bytes \<Rightarrow> ustr io" where
  "wav_to_ogg_base64 w wav_bytes =
     io_bind (io_call (RunFfmpeg wav_bytes) (run_ffmpeg w wav_bytes))
       (\<lambda>r. case r of
          Inl msg \<Rightarrow> io_raise (Exception msg)
        | Inr ogg_bytes \<Rightarrow> io_return (b64encode w ogg_bytes))"

definition image_to_base64 :: "world \<Rightarrow> bytes \<Rightarrow> ustr" where
  "image_to_base64 w image_bytes = b64encode w image_bytes"

definition pdf_to_images :: "world \<Rightarrow> bytes \<Rightarrow> bytes list io" where
  "pdf_to_images w pdf_bytes =
     io_bind (io_call (RunPdf2Image pdf_bytes) (convert_from_bytes w pdf_bytes))
       (\<lambda>r. case r of
          Inl msg \<Rightarrow> io_raise (Exception msg)
        | Inr images \<Rightarrow> io_return images)"

definition extensions :: "(ustr \<times> ustr) list" where
  "extensions =
     [(py ''docx'', py ''.docx''), (py ''doc'', py ''.doc''),
      (py ''xlsx'', py ''.xlsx''), (py ''xls'', py ''.xls''),
      (py ''pptx'', py ''.pptx''), (py ''ppt'', py ''.ppt'')]"

definition office_to_pdf :: "world \<Rightarrow> bytes \<Rightarrow> ustr \<Rightarrow> bytes io" where
  "office_to_pdf w file_bytes file_type =
     (let ext = (case map_of extensions file_type of None \<Rightarrow> py ''.docx'' | Some e \<Rightarrow> e) in
      io_bind (io_call (RunLibreOffice ext file_bytes) (run_libreoffice w ext file_bytes))
        (\<lambda>result. case result of
           SofficeRaised msg \<Rightarrow> io_raise (Exception msg)
         | SofficeExit returncode stderr pdf \<Rightarrow>
             if returncode \<noteq> 0 then
               io_raise (Exception (py ''Error convirtiendo Office a PDF: '' @ stderr))
             else
               (case pdf of
                  None \<Rightarrow> io_raise (Exception (py ''No se gener'' @ [0xF3] @ py '' el PDF''))
                | Some pdf_bytes \<Rightarrow> io_return pdf_bytes)))"

definition call_stt :: "world \<Rightarrow> bytes \<Rightarrow> ustr \<Rightarrow> stt_json io" where
  "call_stt w audio_bytes filename =
     io_bind (io_call (PostSTT audio_bytes filename) (post_stt w audio_bytes filename))
       (\<lambda>response. case response of
          Raised msg \<Rightarrow> io_raise (Exception msg)
        | Response status_code text body \<Rightarrow>
            if status_code \<noteq> 200 then
              io_raise (HTTPException 500 (py ''Error en STT: '' @ text))
            else io_return body)"

definition call_llm :: "world \<Rightarrow> ustr \<Rightarrow> ustr option \<Rightarrow> ustr io" where
  "call_llm w texto system_prompt =
     (let prompt = or_default system_prompt (SYSTEM_PROMPT w) in
      io_bind (io_call (PostLLM prompt texto) (post_llm w prompt texto))
        (\<lambda>response. case response of
           Raised msg \<Rightarrow> io_raise (Exception msg)
         | Response status_code text content \<Rightarrow>
             if status_code \<noteq> 200 then
               io_raise (HTTPException 500 (py ''Error en LLM: '' @ text))
             else io_return (get_default content [])))"

definition VISION_SYSTEM :: ustr where
  "VISION_SYSTEM =
     py ''Eres un asistente experto en an'' @ [0xE1] @ py ''lisis de im'' @ [0xE1] @
     py ''genes y documentos.''"

definition call_llm_vision :: "world \<Rightarrow> ustr \<Rightarrow> ustr \<Rightarrow> ustr option \<Rightarrow> ustr io" where
  "call_llm_vision w image_b64 prompt system_prompt =
     (let sys_prompt = or_default system_prompt VISION_SYSTEM in
      io_bind (io_call (PostVision sys_prompt prompt image_b64)
                 (post_vision w sys_prompt prompt image_b64))
        (\<lambda>response. case response of
           Raised msg \<Rightarrow> io_raise (Exception msg)
         | Response status_code text content \<Rightarrow>
             if status_code \<noteq> 200 then
               io_raise (HTTPException 500 (py ''Error en LLM Vision: '' @ text))
             else io_return (get_default content [])))"

definition call_tts :: "world \<Rightarrow> ustr \<Rightarrow> ustr \<Rightarrow> bytes io" where
  "call_tts w texto idioma =
     io_bind (io_call (PostTTS texto idioma) (post_tts w texto idioma))
       (\<lambda>response. case response of
          Raised msg \<Rightarrow> io_raise (Exception msg)
        | Response status_code text content \<Rightarrow>
            if status_code \<noteq> 200 then
              io_raise (HTTPException 500 (py ''Error en TTS: '' @ text))
            else io_return content)"

section \<open>The request and response models\<close>

record ChatRequest =
  texto :: ustr
  idioma :: "ustr option"
  system_prompt :: "ustr option"

record ChatResponse =
  texto :: ustr
  audio_b64 :: ustr
  idioma :: ustr

record ClassifyResponse =
  tipo_documento :: ustr
  confianza :: ustr
  descripcion :: ustr
  texto :: ustr
  audio_b64 :: ustr
  idioma :: ustr

text \<open>
  The JSON object that FastAPI sends for a response model: one key for each declared field,
  in the order of the declaration.
\<close>

definition ChatResponse_json :: "ChatResponse \<Rightarrow> (ustr \<times> ustr) list" where
  "ChatResponse_json r =
     [(py ''texto'', ChatResponse.texto r),
      (py ''audio_b64'', ChatResponse.audio_b64 r),
      (py ''idioma'', ChatResponse.idioma r)]"

definition ClassifyResponse_json :: "ClassifyResponse \<Rightarrow> (ustr \<times> ustr) list" where
  "ClassifyResponse_json r =
     [(py ''tipo_documento'', tipo_documento r),
      (py ''confianza'', confianza r),
      (py ''descripcion'', descripcion r),
      (py ''texto'', ClassifyResponse.texto r),
      (py ''audio_b64'', ClassifyResponse.audio_b64 r),
      (py ''idioma'', ClassifyResponse.idioma r)]"

section \<open>The endpoints\<close>

definition NO_RESPONSE_LLM :: ustr where
  "NO_RESPONSE_LLM = py ''LLM no gener'' @ [0xF3] @ py '' respuesta''"

definition NO_RESPONSE_VISION :: ustr where
  "NO_RESPONSE_VISION = py ''LLM Vision no gener'' @ [0xF3] @ py '' respuesta''"

definition EMPTY_FILE :: ustr where
  "EMPTY_FILE = py ''Archivo vac'' @ [0xED] @ py ''o''"

definition NO_PAGES :: ustr where
  "NO_PAGES = py ''No se pudieron extraer p'' @ [0xE1] @ py ''ginas del PDF''"

definition UNSUPPORTED :: ustr where
  "UNSUPPORTED =
     py ''Tipo de archivo no soportado. Use PDF, Office (DOCX, XLSX, PPTX) o im'' @ [0xE1] @
     py ''genes''"

definition OFFICE_TYPES :: "ustr list" where
  "OFFICE_TYPES = [py ''docx'', py ''doc'', py ''xlsx'', py ''xls'', py ''pptx'', py ''ppt'']"

definition IMAGE_TYPES :: "ustr list" where
  "IMAGE_TYPES = [py ''png'', py ''jpeg'', py ''gif'', py ''webp'']"

definition chat :: "world \<Rightarrow> ChatRequest \<Rightarrow> ChatResponse io" where
  "chat w request =
     (if py_strip (ChatRequest.texto request) = [] then
        io_raise (HTTPException 400 (py ''El texto no puede estar vac'' @ [0xED] @ py ''o''))
      else
        (let idioma = or_default (ChatRequest.idioma request) (py ''es'') in
         io_try (py ''Error procesando chat: '')
           (io_bind (call_llm w (ChatRequest.texto request) (system_prompt request))
              (\<lambda>respuesta_texto.
                 if respuesta_texto = [] then io_raise (HTTPException 500 NO_RESPONSE_LLM)
                 else
                   io_bind (call_tts w respuesta_texto idioma)
                     (\<lambda>wav_bytes. io_bind (wav_to_ogg_base64 w wav_bytes)
                        (\<lambda>audio_b64. io_return
                           \<lparr>ChatResponse.texto = respuesta_texto,
                            audio_b64 = audio_b64, idioma = idioma\<rparr>))))))"

text \<open>\<open>voice\<close> gets the bytes of the upload and its file name, if it has one.\<close>

definition voice :: "world \<Rightarrow> bytes \<Rightarrow> ustr option \<Rightarrow> ChatResponse io" where
  "voice w audio_bytes audio_filename =
     io_try (py ''Error procesando voice: '')
       (if audio_bytes = [] then
          io_raise (HTTPException 400 (py ''Archivo de audio vac'' @ [0xED] @ py ''o''))
        else
          (let filename = or_default audio_filename (py ''audio.ogg'') in
           io_bind (call_stt w audio_bytes filename)
             (\<lambda>stt_result.
                let texto_usuario = get_default (texto_key stt_result) [];
                    idioma = get_default (idioma_key stt_result) (py ''es'')
                in
                if texto_usuario = [] then
                  io_raise (HTTPException 400 (py ''No se pudo transcribir el audio''))
                else
                  io_bind (call_llm w texto_usuario None)
                    (\<lambda>respuesta_texto.
                       if respuesta_texto = [] then io_raise (HTTPException 500 NO_RESPONSE_LLM)
                       else
                         io_bind (call_tts w respuesta_texto idioma)
                           (\<lambda>wav_bytes. io_bind (wav_to_ogg_base64 w wav_bytes)
                              (\<lambda>audio_b64. io_return
                                 \<lparr>ChatResponse.texto = respuesta_texto,
                                  audio_b64 = audio_b64, idioma = idioma\<rparr>))))))"

text \<open>
  \<open>image\<close>, \<open>document\<close> and \<open>classify\<close> get the bytes of the upload and the form fields
  \<open>prompt\<close> and \<open>idioma\<close>, if the request has them.
\<close>

definition image :: "world \<Rightarrow> bytes \<Rightarrow> ustr option \<Rightarrow> ustr option \<Rightarrow> ChatResponse io" where
  "image w image_bytes prompt_field idioma_field =
     (let prompt = Form_default (py ''Describe esta imagen en detalle.'') prompt_field;
          idioma = Form_default (py ''es'') idioma_field
      in
      io_try (py ''Error procesando imagen: '')
        (if image_bytes = [] then
           io_raise (HTTPException 400 (py ''Archivo de imagen vac'' @ [0xED] @ py ''o''))
         else
           (let image_b64 = image_to_base64 w image_bytes in
            io_bind (call_llm_vision w image_b64 prompt None)
              (\<lambda>respuesta_texto.
                 if respuesta_texto = [] then io_raise (HTTPException 500 NO_RESPONSE_VISION)
                 else
                   io_bind (call_tts w respuesta_texto idioma)
                     (\<lambda>wav_bytes. io_bind (wav_to_ogg_base64 w wav_bytes)
                        (\<lambda>audio_b64. io_return
                           \<lparr>ChatResponse.texto = respuesta_texto,
                            audio_b64 = audio_b64, idioma = idioma\<rparr>))))))"

text \<open>
  The loop of \<open>document\<close> over \<open>enumerate(images)\<close>: one vision call for each page, with the
  page number in the prompt, and one entry of \<open>resultados\<close> with the page header.
\<close>

definition page_prompt :: "nat \<Rightarrow> ustr \<Rightarrow> ustr" where
  "page_prompt i prompt = py ''P'' @ [0xE1] @ py ''gina '' @ str_nat (i + 1) @ py '': '' @ prompt"

definition page_header :: "nat \<Rightarrow> ustr" where
  "page_header i = py ''--- P'' @ [0xE1] @ py ''gina '' @ str_nat (i + 1) @ py '' ---'' @ [0x0A]"

fun analyze_pages :: "world \<Rightarrow> ustr \<Rightarrow> (nat \<times> bytes) list \<Rightarrow> ustr list \<Rightarrow> ustr list io" where
  "analyze_pages w prompt [] resultados = io_return resultados"
| "analyze_pages w prompt ((i, img_bytes) # rest) resultados =
     io_bind (call_llm_vision w (image_to_base64 w img_bytes) (page_prompt i prompt) None)
       (\<lambda>resultado. analyze_pages w prompt rest (resultados @ [page_header i @ resultado]))"

definition DOCUMENT_PROMPT :: ustr where
  "DOCUMENT_PROMPT =
     py ''Analiza este documento y extrae la informaci'' @ [0xF3] @ py ''n importante.''"

definition document :: "world \<Rightarrow> bytes \<Rightarrow> ustr option \<Rightarrow> ustr option \<Rightarrow> ChatResponse io" where
  "document w archivo prompt_field idioma_field =
     (let prompt = Form_default DOCUMENT_PROMPT prompt_field;
          idioma = Form_default (py ''es'') idioma_field
      in
      io_try (py ''Error procesando documento: '')
        (if archivo = [] then io_raise (HTTPException 400 EMPTY_FILE)
         else
           io_bind
             (if detect_file_type archivo \<in> set OFFICE_TYPES then
                io_bind (office_to_pdf w archivo (detect_file_type archivo))
                  (\<lambda>pdf_bytes. io_return (pdf_bytes, py ''pdf''))
              else io_return (archivo, detect_file_type archivo))
             (\<lambda>(file_bytes, file_type).
                io_bind
                  (if file_type = py ''pdf'' then
                     io_bind (pdf_to_images w file_bytes)
                       (\<lambda>images.
                          if images = [] then io_raise (HTTPException 400 NO_PAGES)
                          else
                            io_bind (analyze_pages w prompt (enumerate 0 images) [])
                              (\<lambda>resultados. io_return (py_join [0x0A, 0x0A] resultados)))
                   else if file_type \<in> set IMAGE_TYPES then
                     call_llm_vision w (image_to_base64 w file_bytes) prompt None
                   else io_raise (HTTPException 400 UNSUPPORTED))
                  (\<lambda>respuesta_texto.
                     if respuesta_texto = [] then io_raise (HTTPException 500 NO_RESPONSE_VISION)
                     else
                       io_bind (call_tts w respuesta_texto idioma)
                         (\<lambda>wav_bytes. io_bind (wav_to_ogg_base64 w wav_bytes)
                            (\<lambda>audio_b64. io_return
                               \<lparr>ChatResponse.texto = respuesta_texto,
                                audio_b64 = audio_b64, idioma = idioma\<rparr>))))))"

definition PROMPT_CLASIFICACION :: ustr where
  "PROMPT_CLASIFICACION =
     py ''Analiza este documento y clasif'' @ [0xED] @
     py ''calo en una de las siguientes categor'' @ [0xED] @ py ''as:'' @ [0x0A] @
     py_join (py '', '') TIPOS_DOCUMENTO @ [0x0A, 0x0A] @
     py ''Responde SOLO con el formato:'' @ [0x0A] @
     py ''TIPO: [categor'' @ [0xED] @ py ''a]'' @ [0x0A] @
     py ''CONFIANZA: [alta/media/baja]'' @ [0x0A] @
     py ''DESCRIPCION: [breve descripci'' @ [0xF3] @ py ''n del documento]'' @ [0x0A, 0x0A] @
     py ''Si no puedes identificar el documento, usa \"Otro\" como tipo.''"

definition classify :: "world \<Rightarrow> bytes \<Rightarrow> ustr option \<Rightarrow> ClassifyResponse io" where
  "classify w archivo idioma_field =
     (let idioma = Form_default (py ''es'') idioma_field in
      io_try (py ''Error clasificando documento: '')
        (if archivo = [] then io_raise (HTTPException 400 EMPTY_FILE)
         else
           io_bind
             (if detect_file_type archivo \<in> set OFFICE_TYPES then
                io_bind (office_to_pdf w archivo (detect_file_type archivo))
                  (\<lambda>pdf_bytes. io_return (pdf_bytes, py ''pdf''))
              else io_return (archivo, detect_file_type archivo))
             (\<lambda>(file_bytes, file_type).
                io_bind
                  (if file_type = py ''pdf'' then
                     io_bind (pdf_to_images w file_bytes)
                       (\<lambda>images. case images of
                          [] \<Rightarrow> io_raise (HTTPException 400 NO_PAGES)
                        | first # _ \<Rightarrow> io_return (image_to_base64 w first))
                   else if file_type \<in> set IMAGE_TYPES then
                     io_return (image_to_base64 w file_bytes)
                   else io_raise (HTTPException 400 UNSUPPORTED))
                  (\<lambda>image_b64.
                     io_bind (call_llm_vision w image_b64 PROMPT_CLASIFICACION None)
                       (\<lambda>respuesta_raw.
                          if respuesta_raw = [] then
                            io_raise (HTTPException 500 NO_RESPONSE_VISION)
                          else
                            (case parse_clasificacion respuesta_raw of
                               Inl e \<Rightarrow> io_raise (Exception (py ''list index out of range''))
                             | Inr clasificacion \<Rightarrow>
                                 let (tipo, confianza, descripcion) = clasificacion;
                                     texto_audio =
                                       py ''Documento identificado como '' @ tipo @ py ''. '' @
                                       descripcion
                                 in
                                 io_bind (call_tts w texto_audio idioma)
                                   (\<lambda>wav_bytes. io_bind (wav_to_ogg_base64 w wav_bytes)
                                      (\<lambda>audio_b64. io_return
                                         \<lparr>tipo_documento = tipo, confianza = confianza,
                                          descripcion = descripcion,
                                          ClassifyResponse.texto = texto_audio,
                                          audio_b64 = audio_b64, idioma = idioma\<rparr>))))))))"

section \<open>What the properties speak about\<close>

text \<open>The synthesis requests in a log.\<close>

fun is_tts :: "call \<Rightarrow> bool" where
  "is_tts (PostTTS t l) = True"
| "is_tts c = False"

definition tts_calls :: "call list \<Rightarrow> call list" where
  "tts_calls tr = filter is_tts tr"

text \<open>
  The text that \<open>call_llm_vision\<close> returns for an image and a prompt (the empty text when it
  raises), and the vision request it logs.
\<close>

definition vision_text :: "world \<Rightarrow> bytes \<Rightarrow> ustr \<Rightarrow> ustr" where
  "vision_text w img prompt =
     (case fst (call_llm_vision w (image_to_base64 w img) prompt None []) of
        Inl e \<Rightarrow> []
      | Inr r \<Rightarrow> r)"

definition vision_call :: "world \<Rightarrow> bytes \<Rightarrow> ustr \<Rightarrow> call" where
  "vision_call w img prompt = PostVision VISION_SYSTEM prompt (image_to_base64 w img)"

text \<open>
  Two worlds to run the endpoints in.  In both every service answers 200, the rasteriser finds
  three pages, and the stand-in for base64 writes every byte as its code point.  In the first
  the vision model answers \<open>P1\<close>, \<open>P2\<close>, \<open>P3\<close> for the three pages; in the second it
  answers the empty text for the second page.
\<close>

definition three_pages :: world where
  "three_pages =
     \<lparr>post_stt = (\<lambda>audio filename.
          Response 200 [] \<lparr>texto_key = Some (py ''hola''), idioma_key = Some (py ''en'')\<rparr>),
      post_llm = (\<lambda>system user. Response 200 [] (Some (py ''Hola.''))),
      post_vision = (\<lambda>system prompt image_b64.
          Response 200 []
            (Some (if image_b64 = py ''page one'' then py ''P1''
                   else if image_b64 = py ''page two'' then py ''P2'' else py ''P3''))),
      post_tts = (\<lambda>t l. Response 200 [] ''WAV''),
      run_ffmpeg = (\<lambda>wav. Inr ''OGG''),
      run_libreoffice = (\<lambda>ext b. SofficeExit 0 [] (Some ''%PDF-1.4'')),
      convert_from_bytes = (\<lambda>pdf. Inr [''page one'', ''page two'', ''page three'']),
      b64encode = py,
      SYSTEM_PROMPT = py ''Eres un asistente.''\<rparr>"

definition empty_second_page :: world where
  "empty_second_page =
     three_pages\<lparr>post_vision := (\<lambda>system prompt image_b64.
        Response 200 []
          (Some (if image_b64 = py ''page one'' then py ''P1''
                 else if image_b64 = py ''page two'' then [] else py ''P3'')))\<rparr>"

section \<open>Properties of \<open>detect_file_type\<close>\<close>

lemma take_first:
  assumes "take n b = x # xs"
  shows "\<exists>b'. b = x # b'"
  using assms by (cases b; cases n) auto

text \<open>
  C5.  A buffer that matches an entry of the signature table gets the tag of that entry:
  \<open>%PDF\<close>, the 8-byte PNG magic, the JPEG marker \<open>FF D8\<close>, \<open>GIF8\<close>, the OLE2 magic; WebP
  needs \<open>RIFF\<close> at offset 0 and \<open>WEBP\<close> at offset 8, and a \<open>RIFF\<close> buffer without \<open>WEBP\<close> at
  offset 8 is not WebP.  A buffer that starts with \<open>PK 03 04\<close> is scanned in its first 2000
  bytes for \<open>word/\<close>, then \<open>xl/\<close>, then \<open>ppt/\<close>: the first marker found, in that priority, gives
  docx, xlsx or pptx, and no marker gives zip.
\<close>

theorem detect_file_type_signatures:
  "(take 4 b = ''%PDF'' \<longrightarrow> detect_file_type b = py ''pdf'') \<and>
   (take 8 b = PNG_MAGIC \<longrightarrow> detect_file_type b = py ''png'') \<and>
   (take 2 b = JPEG_MAGIC \<longrightarrow> detect_file_type b = py ''jpeg'') \<and>
   (take 4 b = ''GIF8'' \<longrightarrow> detect_file_type b = py ''gif'') \<and>
   (take 4 b = ''RIFF'' \<and> slice 8 12 b = ''WEBP'' \<longrightarrow> detect_file_type b = py ''webp'') \<and>
   (take 4 b = ''RIFF'' \<and> slice 8 12 b \<noteq> ''WEBP'' \<longrightarrow> detect_file_type b = py ''unknown'') \<and>
   (take 4 b = ZIP_MAGIC \<and> contains ''word/'' (take 2000 b) \<longrightarrow>
      detect_file_type b = py ''docx'') \<and>
   (take 4 b = ZIP_MAGIC \<and> \<not> contains ''word/'' (take 2000 b) \<and> contains ''xl/'' (take 2000 b) \<longrightarrow>
      detect_file_type b = py ''xlsx'') \<and>
   (take 4 b = ZIP_MAGIC \<and> \<not> contains ''word/'' (take 2000 b) \<and> \<not> contains ''xl/'' (take 2000 b) \<and>
      contains ''ppt/'' (take 2000 b) \<longrightarrow> detect_file_type b = py ''pptx'') \<and>
   (take 4 b = ZIP_MAGIC \<and> \<not> contains ''word/'' (take 2000 b) \<and> \<not> contains ''xl/'' (take 2000 b) \<and>
      \<not> contains ''ppt/'' (take 2000 b) \<longrightarrow> detect_file_type b = py ''zip'') \<and>
   (take 8 b = OLE2_MAGIC \<longrightarrow> detect_file_type b = py ''doc'')"
proof -
  have pdf: "take 4 b = ''%PDF'' \<Longrightarrow> detect_file_type b = py ''pdf''"
    by (simp add: detect_file_type_def)
  have png: "detect_file_type b = py ''png''" if "take 8 b = PNG_MAGIC"
  proof -
    from that obtain b' where "b = CHR 0x89 # b'"
      unfolding PNG_MAGIC_def by (blast dest: take_first)
    with that show ?thesis by (simp add: detect_file_type_def)
  qed
  have jpeg: "detect_file_type b = py ''jpeg''" if "take 2 b = JPEG_MAGIC"
  proof -
    from that obtain b' where "b = CHR 0xFF # b'"
      unfolding JPEG_MAGIC_def by (blast dest: take_first)
    with that show ?thesis by (simp add: detect_file_type_def PNG_MAGIC_def)
  qed
  have gif: "detect_file_type b = py ''gif''" if "take 4 b = ''GIF8''"
  proof -
    from that obtain b' where "b = CHR ''G'' # b'"
      by (blast dest: take_first)
    with that show ?thesis by (simp add: detect_file_type_def PNG_MAGIC_def JPEG_MAGIC_def)
  qed
  have riff: "detect_file_type b = (if slice 8 12 b = ''WEBP'' then py ''webp'' else py ''unknown'')"
    if "take 4 b = ''RIFF''"
  proof -
    from that obtain b' where "b = CHR ''R'' # b'"
      by (blast dest: take_first)
    with that show ?thesis
      by (simp add: detect_file_type_def PNG_MAGIC_def JPEG_MAGIC_def ZIP_MAGIC_def OLE2_MAGIC_def)
  qed
  have zip: "detect_file_type b =
      (if contains ''word/'' (take 2000 b) then py ''docx''
       else if contains ''xl/'' (take 2000 b) then py ''xlsx''
       else if contains ''ppt/'' (take 2000 b) then py ''pptx'' else py ''zip'')"
    if "take 4 b = ZIP_MAGIC"
  proof -
    from that obtain b' where b: "b = CHR ''P'' # b'"
      unfolding ZIP_MAGIC_def by (blast dest: take_first)
    have "take 4 b \<noteq> ''%PDF''" "take 8 b \<noteq> PNG_MAGIC" "take 2 b \<noteq> JPEG_MAGIC"
      "take 4 b \<noteq> ''GIF8''" "take 4 b \<noteq> ''RIFF''"
      using b by (simp_all add: PNG_MAGIC_def JPEG_MAGIC_def)
    with that show ?thesis by (simp add: detect_file_type_def)
  qed
  have ole: "detect_file_type b = py ''doc''" if "take 8 b = OLE2_MAGIC"
  proof -
    from that obtain b' where "b = CHR 0xD0 # b'"
      unfolding OLE2_MAGIC_def by (blast dest: take_first)
    with that show ?thesis
      by (simp add: detect_file_type_def PNG_MAGIC_def JPEG_MAGIC_def ZIP_MAGIC_def OLE2_MAGIC_def)
  qed
  show ?thesis
    using pdf png jpeg gif riff zip ole by simp
qed

text \<open>
  C9.  \<open>detect_file_type\<close> is a total function of the buffer (every slice it takes is
  defined for every buffer, so no path raises) and its value is always one of the eleven
  tags \<open>pdf\<close>, \<open>png\<close>, \<open>jpeg\<close>, \<open>gif\<close>, \<open>webp\<close>, \<open>docx\<close>, \<open>doc\<close>, \<open>xlsx\<close>, \<open>pptx\<close>,
  \<open>zip\<close>, \<open>unknown\<close>.  The empty buffer is \<open>unknown\<close>; a buffer that starts with \<open>RIFF\<close> and
  has fewer than 12 bytes is \<open>unknown\<close>; a buffer that matches no signature is \<open>unknown\<close>.
\<close>

theorem detect_file_type_total:
  "detect_file_type b \<in> set DETECTED_FORMATS \<and>
   detect_file_type [] = py ''unknown'' \<and>
   (take 4 b = ''RIFF'' \<and> length b < 12 \<longrightarrow> detect_file_type b = py ''unknown'') \<and>
   (take 4 b \<noteq> ''%PDF'' \<and> take 8 b \<noteq> PNG_MAGIC \<and> take 2 b \<noteq> JPEG_MAGIC \<and>
    take 4 b \<noteq> ''GIF8'' \<and> \<not> (take 4 b = ''RIFF'' \<and> slice 8 12 b = ''WEBP'') \<and>
    take 4 b \<noteq> ZIP_MAGIC \<and> take 8 b \<noteq> OLE2_MAGIC \<longrightarrow>
      detect_file_type b = py ''unknown'')"
proof -
  have mem: "detect_file_type b \<in> set DETECTED_FORMATS"
    unfolding detect_file_type_def DETECTED_FORMATS_def by simp
  have empty: "detect_file_type [] = py ''unknown''"
    by (simp add: detect_file_type_def PNG_MAGIC_def JPEG_MAGIC_def ZIP_MAGIC_def
        OLE2_MAGIC_def slice_def)
  have short: "detect_file_type b = py ''unknown''" if r: "take 4 b = ''RIFF''" and l: "length b < 12"
  proof -
    from r obtain b' where b: "b = CHR ''R'' # b'"
      by (blast dest: take_first)
    have "length (slice 8 12 b) < 4"
      using l by (simp add: slice_def)
    then have "slice 8 12 b \<noteq> ''WEBP''"
      by auto
    with r b show ?thesis
      by (simp add: detect_file_type_def PNG_MAGIC_def JPEG_MAGIC_def ZIP_MAGIC_def OLE2_MAGIC_def)
  qed
  have none: "detect_file_type b = py ''unknown''"
    if "take 4 b \<noteq> ''%PDF''" "take 8 b \<noteq> PNG_MAGIC" "take 2 b \<noteq> JPEG_MAGIC"
      "take 4 b \<noteq> ''GIF8''" "\<not> (take 4 b = ''RIFF'' \<and> slice 8 12 b = ''WEBP'')"
      "take 4 b \<noteq> ZIP_MAGIC" "take 8 b \<noteq> OLE2_MAGIC"
    using that by (auto simp: detect_file_type_def)
  show ?thesis
    using mem empty short none by blast
qed

theorem detect_file_type_total_witness:
  "detect_file_type ''RIFFabcd'' \<in> set DETECTED_FORMATS \<and>
   detect_file_type ''RIFFabcd'' = py ''unknown'' \<and>
   detect_file_type ''hello'' = py ''unknown''"
proof -
  have a: "take 4 ''RIFFabcd'' = ''RIFF'' \<and> length ''RIFFabcd'' < 12"
    by simp
  have b: "take 4 ''hello'' \<noteq> ''%PDF'' \<and> take 8 ''hello'' \<noteq> PNG_MAGIC \<and>
    take 2 ''hello'' \<noteq> JPEG_MAGIC \<and> take 4 ''hello'' \<noteq> ''GIF8'' \<and>
    \<not> (take 4 ''hello'' = ''RIFF'' \<and> slice 8 12 ''hello'' = ''WEBP'') \<and>
    take 4 ''hello'' \<noteq> ZIP_MAGIC \<and> take 8 ''hello'' \<noteq> OLE2_MAGIC"
    by (simp add: PNG_MAGIC_def JPEG_MAGIC_def ZIP_MAGIC_def OLE2_MAGIC_def)
  have "detect_file_type ''RIFFabcd'' \<in> set DETECTED_FORMATS"
    using detect_file_type_total [of "''RIFFabcd''"] by blast
  moreover have "detect_file_type ''RIFFabcd'' = py ''unknown''"
    using a detect_file_type_total [of "''RIFFabcd''"] by blast
  moreover have "detect_file_type ''hello'' = py ''unknown''"
    using b detect_file_type_total [of "''hello''"] by blast
  ultimately show ?thesis by simp
qed

theorem detect_file_type_signatures_witness:
  "detect_file_type (ZIP_MAGIC @ ''....xl/workbook.xml'') = py ''xlsx'' \<and>
   detect_file_type (ZIP_MAGIC @ ''....ppt/word/xl/'') = py ''docx'' \<and>
   detect_file_type (ZIP_MAGIC @ ''....mimetype'') = py ''zip'' \<and>
   detect_file_type ''RIFF....WEBPVP8 '' = py ''webp'' \<and>
   detect_file_type ''RIFF....WAVEfmt '' = py ''unknown'' \<and>
   detect_file_type ''%PDF-1.7'' = py ''pdf''"
proof -
  let ?x = "ZIP_MAGIC @ ''....xl/workbook.xml''"
  let ?d = "ZIP_MAGIC @ ''....ppt/word/xl/''"
  let ?z = "ZIP_MAGIC @ ''....mimetype''"
  have x: "take 4 ?x = ZIP_MAGIC \<and> \<not> contains ''word/'' (take 2000 ?x) \<and> contains ''xl/'' (take 2000 ?x)"
    by (simp add: ZIP_MAGIC_def startswith_def)
  have d: "take 4 ?d = ZIP_MAGIC \<and> contains ''word/'' (take 2000 ?d)"
    by (simp add: ZIP_MAGIC_def startswith_def)
  have z: "take 4 ?z = ZIP_MAGIC \<and> \<not> contains ''word/'' (take 2000 ?z) \<and>
      \<not> contains ''xl/'' (take 2000 ?z) \<and> \<not> contains ''ppt/'' (take 2000 ?z)"
    by (simp add: ZIP_MAGIC_def startswith_def)
  have w: "take 4 ''RIFF....WEBPVP8 '' = ''RIFF'' \<and> slice 8 12 ''RIFF....WEBPVP8 '' = ''WEBP''"
    by (simp add: slice_def)
  have v: "take 4 ''RIFF....WAVEfmt '' = ''RIFF'' \<and> slice 8 12 ''RIFF....WAVEfmt '' \<noteq> ''WEBP''"
    by (simp add: slice_def)
  have p: "take 4 ''%PDF-1.7'' = ''%PDF''"
    by simp
  have "detect_file_type ?x = py ''xlsx''"
    using x detect_file_type_signatures [of ?x] by blast
  moreover have "detect_file_type ?d = py ''docx''"
    using d detect_file_type_signatures [of ?d] by blast
  moreover have "detect_file_type ?z = py ''zip''"
    using z detect_file_type_signatures [of ?z] by blast
  moreover have "detect_file_type ''RIFF....WEBPVP8 '' = py ''webp''"
    using w detect_file_type_signatures [of "''RIFF....WEBPVP8 ''"] by blast
  moreover have "detect_file_type ''RIFF....WAVEfmt '' = py ''unknown''"
    using v detect_file_type_signatures [of "''RIFF....WAVEfmt ''"] by blast
  moreover have "detect_file_type ''%PDF-1.7'' = py ''pdf''"
    using p detect_file_type_signatures [of "''%PDF-1.7''"] by blast
  ultimately show ?thesis by simp
qed

section \<open>Properties of \<open>parse_clasificacion\<close>\<close>

lemma upper_cp_colon: "0x3A \<in> set (upper_cp c) \<Longrightarrow> c = 0x3A"
  by (auto simp: upper_cp_def split: if_splits)

lemma py_upper_colon: "0x3A \<in> set (py_upper s) \<Longrightarrow> 0x3A \<in> set s"
  by (auto simp: py_upper_def dest: upper_cp_colon)

lemma startswith_subset: "startswith s p \<Longrightarrow> set p \<subseteq> set s"
  unfolding startswith_def by (metis set_take_subset)

lemma after_colon_value: "0x3A \<in> set line \<Longrightarrow> after_colon line = Inr (value_of line)"
  by (simp add: after_colon_def split_once_def py_index_def value_of_def)

lemma key_line_colon:
  assumes "is_tipo line \<or> is_confianza line \<or> is_descripcion line"
  shows "0x3A \<in> set line"
proof -
  from assms obtain k where k: "startswith (py_upper line) k" and c: "0x3A \<in> set k"
    unfolding is_tipo_def is_confianza_def is_descripcion_def
    by (auto simp: py_def)
  from k have "set k \<subseteq> set (py_upper line)" by (rule startswith_subset)
  with c show ?thesis by (auto dest: py_upper_colon)
qed

lemma tipo_not_others: "is_tipo line \<Longrightarrow> \<not> is_confianza line \<and> \<not> is_descripcion line"
  unfolding is_tipo_def is_confianza_def is_descripcion_def startswith_def
  by (cases "py_upper line") (auto simp: py_def)

lemma confianza_not_descripcion: "is_confianza line \<Longrightarrow> \<not> is_descripcion line"
  unfolding is_confianza_def is_descripcion_def startswith_def
  by (cases "py_upper line") (auto simp: py_def)

lemma parse_line_cases:
  "parse_line (t, c, d) line =
     Inr (if is_tipo line then py_strip (value_of line) else t,
          if is_confianza line then py_lower (py_strip (value_of line)) else c,
          if is_descripcion line then py_strip (value_of line) else d)"
proof -
  consider (T) "is_tipo line" | (C) "\<not> is_tipo line" "is_confianza line"
    | (D) "\<not> is_tipo line" "\<not> is_confianza line" "is_descripcion line"
    | (N) "\<not> is_tipo line" "\<not> is_confianza line" "\<not> is_descripcion line"
    by blast
  then show ?thesis
  proof cases
    case T
    then have "after_colon line = Inr (value_of line)"
      by (simp add: after_colon_value key_line_colon)
    with T tipo_not_others [OF T] show ?thesis
      by (simp add: parse_line_def is_tipo_def)
  next
    case C
    then have "after_colon line = Inr (value_of line)"
      by (simp add: after_colon_value key_line_colon)
    with C confianza_not_descripcion [OF C(2)] show ?thesis
      by (simp add: parse_line_def is_tipo_def is_confianza_def)
  next
    case D
    then have a: "after_colon line = Inr (value_of line)"
      by (simp add: after_colon_value key_line_colon)
    from D have "startswith (py_upper line) (py ''DESCRIPCION:'') \<or>
      startswith (py_upper line) (py ''DESCRIPCI'' @ [0xD3] @ py ''N:'')"
      by (simp add: is_descripcion_def)
    with a D show ?thesis
      by (auto simp: parse_line_def is_tipo_def is_confianza_def)
  next
    case N
    then show ?thesis
      by (auto simp: parse_line_def is_tipo_def is_confianza_def is_descripcion_def)
  qed
qed

lemma last_wins_Cons:
  "last_wins P f d (l # ls) = last_wins P f (if P l then f l else d) ls"
  by (simp add: last_wins_def)

lemma parse_lines_last_wins:
  "parse_lines (t, c, d) lines =
     Inr (last_wins is_tipo (\<lambda>l. py_strip (value_of l)) t lines,
          last_wins is_confianza (\<lambda>l. py_lower (py_strip (value_of l))) c lines,
          last_wins is_descripcion (\<lambda>l. py_strip (value_of l)) d lines)"
proof (induction lines arbitrary: t c d)
  case Nil
  show ?case by (simp add: last_wins_def)
next
  case (Cons l ls)
  show ?case
    by (simp only: parse_lines.simps parse_line_cases sum.case Cons.IH last_wins_Cons)
qed

lemma Otro_in_TIPOS: "py ''Otro'' \<in> set TIPOS_DOCUMENTO"
  by (simp add: TIPOS_DOCUMENTO_def)

lemma parse_clasificacion_eq:
  "parse_clasificacion raw =
     Inr (let tipo = last_wins is_tipo (\<lambda>l. py_strip (value_of l)) (py ''Otro'') (lines_of raw)
          in if tipo \<in> set TIPOS_DOCUMENTO then tipo else py ''Otro'',
          last_wins is_confianza (\<lambda>l. py_lower (py_strip (value_of l))) (py ''baja'') (lines_of raw),
          last_wins is_descripcion (\<lambda>l. py_strip (value_of l)) raw (lines_of raw))"
  by (simp add: parse_clasificacion_def parse_lines_last_wins lines_of_def Let_def)

text \<open>
  C2.  \<open>parse_clasificacion\<close> returns a record for every input text (the \<open>IndexError\<close> of
  \<open>line.split(":", 1)[1]\<close> cannot happen, since a recognised line contains a colon), and
  the type of the record is a member of \<open>TIPOS_DOCUMENTO\<close>, the list of 18 types whose last
  is \<open>Otro\<close>: it is the type extracted from the last \<open>TIPO:\<close> line when that text is in the
  list, and \<open>Otro\<close> otherwise.  An input without any recognised line gives \<open>Otro\<close>, \<open>baja\<close>
  and the whole input as description.
\<close>

theorem parse_clasificacion_total:
  "(\<exists>tipo conf desc.
      parse_clasificacion raw = Inr (tipo, conf, desc) \<and>
      tipo \<in> set TIPOS_DOCUMENTO \<and>
      (let extracted = last_wins is_tipo (\<lambda>l. py_strip (value_of l)) (py ''Otro'') (lines_of raw)
       in tipo = (if extracted \<in> set TIPOS_DOCUMENTO then extracted else py ''Otro''))) \<and>
   length TIPOS_DOCUMENTO = 18 \<and> last TIPOS_DOCUMENTO = py ''Otro'' \<and>
   ((\<forall>line \<in> set (lines_of raw). \<not> is_tipo line \<and> \<not> is_confianza line \<and> \<not> is_descripcion line) \<longrightarrow>
      parse_clasificacion raw = Inr (py ''Otro'', py ''baja'', raw))"
proof -
  have a: "\<exists>tipo conf desc.
      parse_clasificacion raw = Inr (tipo, conf, desc) \<and>
      tipo \<in> set TIPOS_DOCUMENTO \<and>
      (let extracted = last_wins is_tipo (\<lambda>l. py_strip (value_of l)) (py ''Otro'') (lines_of raw)
       in tipo = (if extracted \<in> set TIPOS_DOCUMENTO then extracted else py ''Otro''))"
    using Otro_in_TIPOS by (simp add: parse_clasificacion_eq Let_def)
  have b: "length TIPOS_DOCUMENTO = 18" "last TIPOS_DOCUMENTO = py ''Otro''"
    by (simp_all add: TIPOS_DOCUMENTO_def)
  have c: "parse_clasificacion raw = Inr (py ''Otro'', py ''baja'', raw)"
    if "\<forall>line \<in> set (lines_of raw). \<not> is_tipo line \<and> \<not> is_confianza line \<and> \<not> is_descripcion line"
  proof -
    from that have "filter is_tipo (lines_of raw) = []" "filter is_confianza (lines_of raw) = []"
      "filter is_descripcion (lines_of raw) = []"
      by (simp_all add: filter_empty_conv)
    then show ?thesis
      using Otro_in_TIPOS by (simp add: parse_clasificacion_eq last_wins_def)
  qed
  from a b c show ?thesis by blast
qed

lemmas eval_defs = py_def py_strip_def py_isspace_def py_upper_def upper_cp_def
   startswith_def py_lower_def lower_cp_def TIPOS_DOCUMENTO_def value_of_def
   is_tipo_def is_confianza_def is_descripcion_def lines_of_def last_wins_def

theorem parse_clasificacion_total_witness:
  "parse_clasificacion (py ''No se puede leer'') = Inr (py ''Otro'', py ''baja'', py ''No se puede leer'') \<and>
   (\<exists>tipo conf desc.
      parse_clasificacion (py ''tipo: Marciano'') = Inr (tipo, conf, desc) \<and>
      tipo = py ''Otro'')"
proof -
  have "\<forall>line \<in> set (lines_of (py ''No se puede leer'')).
      \<not> is_tipo line \<and> \<not> is_confianza line \<and> \<not> is_descripcion line"
    by (simp add: eval_defs)
  then have "parse_clasificacion (py ''No se puede leer'') = Inr (py ''Otro'', py ''baja'', py ''No se puede leer'')"
    using parse_clasificacion_total [of "py ''No se puede leer''"] by blast
  moreover have "last_wins is_tipo (\<lambda>l. py_strip (value_of l)) (py ''Otro'') (lines_of (py ''tipo: Marciano''))
     = py ''Marciano''"
    by (simp add: eval_defs)
  moreover have "py ''Marciano'' \<notin> set TIPOS_DOCUMENTO"
    by (simp add: eval_defs)
  ultimately show ?thesis
    using parse_clasificacion_total [of "py ''tipo: Marciano''"] by (auto simp: Let_def)
qed




section \<open>Rendering a record and parsing it again\<close>





lemma py_strip_fixed:
  assumes "s \<noteq> []" "\<not> py_isspace (hd s)" "\<not> py_isspace (last s)"
  shows "py_strip s = s"
proof -
  from assms have a: "dropWhile py_isspace s = s"
    by (cases s) auto
  from assms have "rev s \<noteq> []" "\<not> py_isspace (hd (rev s))"
    by (simp_all add: hd_rev)
  then have "dropWhile py_isspace (rev s) = rev s"
    by (cases "rev s") auto
  with a show ?thesis by (simp add: py_strip_def)
qed

lemma py_strip_ends:
  assumes "py_strip s \<noteq> []"
  shows "\<not> py_isspace (hd (py_strip s)) \<and> \<not> py_isspace (last (py_strip s))"
proof -
  let ?a = "dropWhile py_isspace s"
  let ?b = "dropWhile py_isspace (rev ?a)"
  from assms have b: "?b \<noteq> []" by (simp add: py_strip_def)
  then have hb: "\<not> py_isspace (hd ?b)" by (rule hd_dropWhile)
  then have l: "\<not> py_isspace (last (py_strip s))"
    using b by (simp add: py_strip_def last_rev)
  have a: "?a \<noteq> []"
  proof
    assume "?a = []"
    then have "?b = []" by (simp only: rev.simps dropWhile.simps)
    with b show False by blast
  qed
  then have ha: "\<not> py_isspace (hd ?a)" by (rule hd_dropWhile)
  obtain ys where ys: "rev ?a = takeWhile py_isspace (rev ?a) @ ?b"
    by simp
  then have "?a = rev ?b @ rev (takeWhile py_isspace (rev ?a))"
    by (metis rev_append rev_rev_ident)
  with b have "hd ?a = hd (rev ?b)"
    by (metis hd_append2 rev_is_Nil_conv)
  with ha have "\<not> py_isspace (hd (py_strip s))" by (simp add: py_strip_def)
  with l show ?thesis by simp
qed

lemma py_strip_idem: "py_strip (py_strip s) = py_strip s"
proof (cases "py_strip s = []")
  case True
  have "py_strip [] = []" by (simp add: py_strip_def)
  with True show ?thesis by (simp only:)
next
  case False
  with py_strip_ends [OF False] show ?thesis by (simp add: py_strip_fixed)
qed


























section \<open>Properties of the endpoints\<close>

lemma io_bind_return [simp]: "io_bind (io_return x) f = f x"
  by (rule ext) (simp add: io_bind_def io_return_def)

lemma io_bind_raise [simp]: "io_bind (io_raise e) f = io_raise e"
  by (rule ext) (simp add: io_bind_def io_raise_def)

lemma io_try_raise_http [simp]:
  "io_try label (io_raise (HTTPException s d)) tr = (Inl (HTTPException s d), tr)"
  by (simp add: io_try_def io_raise_def)

lemma unsupported_tags:
  "py ''zip'' \<notin> set OFFICE_TYPES" "py ''zip'' \<noteq> py ''pdf''" "py ''zip'' \<notin> set IMAGE_TYPES"
  "py ''unknown'' \<notin> set OFFICE_TYPES" "py ''unknown'' \<noteq> py ''pdf''"
  "py ''unknown'' \<notin> set IMAGE_TYPES"
  by (simp_all add: OFFICE_TYPES_def IMAGE_TYPES_def py_def)

text \<open>
  C6.  Every endpoint checks its input before it calls anything: a chat text that is empty
  once stripped, and an empty upload on \<open>voice\<close>, \<open>image\<close>, \<open>document\<close> and \<open>classify\<close>, raise
  a 400 and leave the log of external calls as it was; so does, on \<open>document\<close> and
  \<open>classify\<close>, a non-empty upload whose detected type is \<open>zip\<close> or \<open>unknown\<close>.
\<close>

theorem input_validated_before_calls:
  "(py_strip (ChatRequest.texto request) = [] \<longrightarrow>
      chat w request tr =
        (Inl (HTTPException 400 (py ''El texto no puede estar vac'' @ [0xED] @ py ''o'')), tr)) \<and>
   voice w [] fname tr =
     (Inl (HTTPException 400 (py ''Archivo de audio vac'' @ [0xED] @ py ''o'')), tr) \<and>
   image w [] p l tr =
     (Inl (HTTPException 400 (py ''Archivo de imagen vac'' @ [0xED] @ py ''o'')), tr) \<and>
   document w [] p l tr = (Inl (HTTPException 400 EMPTY_FILE), tr) \<and>
   classify w [] l tr = (Inl (HTTPException 400 EMPTY_FILE), tr) \<and>
   (archivo \<noteq> [] \<and>
    (detect_file_type archivo = py ''zip'' \<or> detect_file_type archivo = py ''unknown'') \<longrightarrow>
      document w archivo p l tr = (Inl (HTTPException 400 UNSUPPORTED), tr) \<and>
      classify w archivo l tr = (Inl (HTTPException 400 UNSUPPORTED), tr))"
proof -
  have c: "chat w request tr =
      (Inl (HTTPException 400 (py ''El texto no puede estar vac'' @ [0xED] @ py ''o'')), tr)"
    if "py_strip (ChatRequest.texto request) = []"
    using that by (simp add: chat_def io_raise_def)
  have v: "voice w [] fname tr =
      (Inl (HTTPException 400 (py ''Archivo de audio vac'' @ [0xED] @ py ''o'')), tr)"
    by (simp add: voice_def)
  have i: "image w [] p l tr =
      (Inl (HTTPException 400 (py ''Archivo de imagen vac'' @ [0xED] @ py ''o'')), tr)"
    by (simp add: image_def)
  have d: "document w [] p l tr = (Inl (HTTPException 400 EMPTY_FILE), tr)"
    by (simp add: document_def)
  have k: "classify w [] l tr = (Inl (HTTPException 400 EMPTY_FILE), tr)"
    by (simp add: classify_def)
  have u: "document w archivo p l tr = (Inl (HTTPException 400 UNSUPPORTED), tr) \<and>
      classify w archivo l tr = (Inl (HTTPException 400 UNSUPPORTED), tr)"
    if "archivo \<noteq> []"
      "detect_file_type archivo = py ''zip'' \<or> detect_file_type archivo = py ''unknown''"
    using that unsupported_tags by (auto simp: document_def classify_def)
  from c v i d k u show ?thesis by blast
qed

theorem input_validated_before_calls_witness:
  "chat three_pages \<lparr>ChatRequest.texto = py ''   '', idioma = None, system_prompt = None\<rparr> [] =
     (Inl (HTTPException 400 (py ''El texto no puede estar vac'' @ [0xED] @ py ''o'')), []) \<and>
   document three_pages (ZIP_MAGIC @ ''mimetype'') None None [] =
     (Inl (HTTPException 400 UNSUPPORTED), []) \<and>
   classify three_pages ''hello'' None [] = (Inl (HTTPException 400 UNSUPPORTED), [])"
proof -
  let ?req = "\<lparr>ChatRequest.texto = py ''   '', idioma = None, system_prompt = None\<rparr>"
  have a: "py_strip (ChatRequest.texto ?req) = []"
    by (simp add: py_def py_strip_def py_isspace_def)
  have b: "ZIP_MAGIC @ ''mimetype'' \<noteq> [] \<and>
    (detect_file_type (ZIP_MAGIC @ ''mimetype'') = py ''zip'' \<or>
     detect_file_type (ZIP_MAGIC @ ''mimetype'') = py ''unknown'')"
    by (simp add: detect_file_type_def ZIP_MAGIC_def PNG_MAGIC_def JPEG_MAGIC_def startswith_def)
  have c: "''hello'' \<noteq> [] \<and>
    (detect_file_type ''hello'' = py ''zip'' \<or> detect_file_type ''hello'' = py ''unknown'')"
    by (simp add: detect_file_type_def ZIP_MAGIC_def PNG_MAGIC_def JPEG_MAGIC_def OLE2_MAGIC_def)
  have "chat three_pages ?req [] =
     (Inl (HTTPException 400 (py ''El texto no puede estar vac'' @ [0xED] @ py ''o'')), [])"
    using a input_validated_before_calls [where w = three_pages and request = ?req and tr = "[]"]
    by blast
  moreover have "document three_pages (ZIP_MAGIC @ ''mimetype'') None None [] =
     (Inl (HTTPException 400 UNSUPPORTED), [])"
    using b input_validated_before_calls [where w = three_pages
        and archivo = "ZIP_MAGIC @ ''mimetype''" and tr = "[]" and p = None and l = None]
    by blast
  moreover have "classify three_pages ''hello'' None [] = (Inl (HTTPException 400 UNSUPPORTED), [])"
    using c input_validated_before_calls [where w = three_pages
        and archivo = "''hello''" and tr = "[]" and l = None]
    by blast
  ultimately show ?thesis by simp
qed

declare str_nat.simps [simp del]

lemmas run_defs = io_bind_def io_return_def io_raise_def io_call_def io_try_def
  call_llm_vision_def call_tts_def wav_to_ogg_base64_def pdf_to_images_def image_to_base64_def
  or_default_def get_default_def Form_default_def

lemma detect_pdf: "detect_file_type ''%PDF-1.4'' = py ''pdf''"
  by (simp add: detect_file_type_def)

lemma pdf_not_office: "py ''pdf'' \<notin> set OFFICE_TYPES"
  by (simp add: OFFICE_TYPES_def py_def)

lemma page_texts:
  "page_prompt 0 p = py ''P'' @ [0xE1] @ py ''gina 1: '' @ p"
  "page_prompt (Suc 0) p = py ''P'' @ [0xE1] @ py ''gina 2: '' @ p"
  "page_prompt (Suc (Suc 0)) p = py ''P'' @ [0xE1] @ py ''gina 3: '' @ p"
  "page_header 0 = py ''--- P'' @ [0xE1] @ py ''gina 1 ---'' @ [0x0A]"
  "page_header (Suc 0) = py ''--- P'' @ [0xE1] @ py ''gina 2 ---'' @ [0x0A]"
  "page_header (Suc (Suc 0)) = py ''--- P'' @ [0xE1] @ py ''gina 3 ---'' @ [0x0A]"
  by (simp_all add: page_prompt_def page_header_def str_nat.simps py_def)

lemma pages_neq: "py ''page two'' \<noteq> py ''page one''" "py ''page three'' \<noteq> py ''page one''"
  "py ''page three'' \<noteq> py ''page two''"
  by (simp_all add: py_def)

text \<open>
  C1.  On the PDF path of \<open>document\<close> an empty answer of the vision model for a page is not
  detected.  In the world \<open>empty_second_page\<close> the answer for the second of three pages is the
  empty text; the request succeeds all the same, with a reply whose text carries the header of
  page 2 and nothing under it, and the text is sent on to the synthesis.  The check
  \<open>if not respuesta_texto\<close> that follows the branch cannot fire there, since every entry of
  \<open>resultados\<close> starts with its page header (lemma \<open>pdf_text_never_empty\<close> below); on the
  other paths an empty answer does raise the 500 (lemma \<open>empty_answer_is_terminal\<close>).
\<close>

theorem document_empty_page_not_detected:
  "fst (call_llm_vision empty_second_page (py ''page two'')
          (page_prompt 1 DOCUMENT_PROMPT) None []) = Inr [] \<and>
   document empty_second_page ''%PDF-1.4'' None None [] =
     (Inr \<lparr>ChatResponse.texto =
             py ''--- P'' @ [0xE1] @ py ''gina 1 ---'' @ [0x0A] @ py ''P1'' @ [0x0A, 0x0A] @
             py ''--- P'' @ [0xE1] @ py ''gina 2 ---'' @ [0x0A] @ [0x0A, 0x0A] @
             py ''--- P'' @ [0xE1] @ py ''gina 3 ---'' @ [0x0A] @ py ''P3'',
            audio_b64 = py ''OGG'', idioma = py ''es''\<rparr>,
      [RunPdf2Image ''%PDF-1.4'',
       PostVision VISION_SYSTEM (py ''P'' @ [0xE1] @ py ''gina 1: '' @ DOCUMENT_PROMPT) (py ''page one''),
       PostVision VISION_SYSTEM (py ''P'' @ [0xE1] @ py ''gina 2: '' @ DOCUMENT_PROMPT) (py ''page two''),
       PostVision VISION_SYSTEM (py ''P'' @ [0xE1] @ py ''gina 3: '' @ DOCUMENT_PROMPT) (py ''page three''),
       PostTTS (py ''--- P'' @ [0xE1] @ py ''gina 1 ---'' @ [0x0A] @ py ''P1'' @ [0x0A, 0x0A] @
             py ''--- P'' @ [0xE1] @ py ''gina 2 ---'' @ [0x0A] @ [0x0A, 0x0A] @
             py ''--- P'' @ [0xE1] @ py ''gina 3 ---'' @ [0x0A] @ py ''P3'') (py ''es''),
       RunFfmpeg ''WAV''])"
  by (simp add: document_def detect_pdf pdf_not_office run_defs empty_second_page_def
      three_pages_def enumerate_eq_zip page_texts pages_neq upt_rec Let_def)

subsection \<open>The pages of a document\<close>

lemma io_bind_Inr:
  "io_bind m f tr = (Inr y, tr') \<longleftrightarrow> (\<exists>x tr1. m tr = (Inr x, tr1) \<and> f x tr1 = (Inr y, tr'))"
  by (auto simp: io_bind_def split: prod.splits sum.splits)

lemma io_try_Inr: "io_try label m tr = (Inr y, tr') \<longleftrightarrow> m tr = (Inr y, tr')"
  by (auto simp: io_try_def split: prod.splits sum.splits exc.splits)

lemma io_raise_Inr [simp]: "io_raise e tr \<noteq> (Inr y, tr')"
  by (simp add: io_raise_def)

lemma io_return_Inr [simp]: "io_return x tr = (Inr y, tr') \<longleftrightarrow> y = x \<and> tr' = tr"
  by (auto simp: io_return_def)

lemma io_call_Inr [simp]: "io_call c a tr = (Inr y, tr') \<longleftrightarrow> y = a \<and> tr' = tr @ [c]"
  by (auto simp: io_call_def)

lemma call_llm_vision_run:
  "call_llm_vision w b p None tr =
     (fst (call_llm_vision w b p None []), tr @ [PostVision VISION_SYSTEM p b])"
  by (simp add: call_llm_vision_def or_default_def io_bind_def io_call_def io_raise_def
      io_return_def split: http.splits)

lemma call_llm_vision_Inr:
  assumes "call_llm_vision w (image_to_base64 w img) p None tr = (Inr r, tr')"
  shows "r = vision_text w img p \<and> tr' = tr @ [vision_call w img p]"
proof -
  from assms call_llm_vision_run [of w "image_to_base64 w img" p tr]
  have "fst (call_llm_vision w (image_to_base64 w img) p None []) = Inr r"
    and "tr' = tr @ [PostVision VISION_SYSTEM p (image_to_base64 w img)]"
    by simp_all
  then show ?thesis by (simp add: vision_text_def vision_call_def)
qed

lemma call_tts_Inr:
  "call_tts w t l tr = (Inr wav, tr') \<Longrightarrow> tr' = tr @ [PostTTS t l]"
  by (auto simp: call_tts_def io_bind_Inr split: http.splits if_splits)

lemma wav_to_ogg_base64_Inr:
  "wav_to_ogg_base64 w wav tr = (Inr a, tr') \<Longrightarrow> tr' = tr @ [RunFfmpeg wav]"
  by (auto simp: wav_to_ogg_base64_def io_bind_Inr split: sum.splits)

lemma pdf_to_images_Inr:
  "pdf_to_images w b tr = (Inr images, tr') \<Longrightarrow>
     convert_from_bytes w b = Inr images \<and> tr' = tr @ [RunPdf2Image b]"
  by (auto simp: pdf_to_images_def io_bind_Inr split: sum.splits)

lemma office_to_pdf_Inr:
  "office_to_pdf w b t tr = (Inr pdf, tr') \<Longrightarrow> \<exists>ext. tr' = tr @ [RunLibreOffice ext b]"
  by (auto simp: office_to_pdf_def Let_def io_bind_Inr split: soffice.splits if_splits option.splits)

lemma analyze_pages_Inr:
  "analyze_pages w prompt pages acc tr = (Inr rs, tr') \<Longrightarrow>
     rs = acc @ map (\<lambda>(i, img). page_header i @ vision_text w img (page_prompt i prompt)) pages \<and>
     tr' = tr @ map (\<lambda>(i, img). vision_call w img (page_prompt i prompt)) pages"
proof (induction pages arbitrary: acc tr)
  case Nil
  then show ?case by simp
next
  case (Cons page pages)
  obtain i img where page: "page = (i, img)" by (cases page)
  from Cons.prems obtain r tr1 where
    v: "call_llm_vision w (image_to_base64 w img) (page_prompt i prompt) None tr = (Inr r, tr1)"
    and rest: "analyze_pages w prompt pages (acc @ [page_header i @ r]) tr1 = (Inr rs, tr')"
    unfolding page by (auto simp: io_bind_Inr)
  from call_llm_vision_Inr [OF v] Cons.IH [OF rest] show ?case
    unfolding page by simp
qed

lemma finish_Inr:
  assumes "io_bind (call_tts w t l)
      (\<lambda>wav. io_bind (wav_to_ogg_base64 w wav) (\<lambda>a. io_return (R a))) tr = (Inr reply, tr')"
  shows "\<exists>wav a. reply = R a \<and> tr' = tr @ [PostTTS t l, RunFfmpeg wav]"
  using assms by (auto simp: io_bind_Inr dest!: call_tts_Inr wav_to_ogg_base64_Inr)

lemma pdf_stage_Inr:
  assumes "io_bind (pdf_to_images w fb)
      (\<lambda>images. if images = [] then io_raise e
         else io_bind (analyze_pages w prompt (enumerate 0 images) [])
                (\<lambda>resultados. io_return (py_join sep resultados))) tr = (Inr answer, tr')"
  shows "\<exists>images. convert_from_bytes w fb = Inr images \<and> images \<noteq> [] \<and>
      answer = py_join sep
        (map (\<lambda>(i, img). page_header i @ vision_text w img (page_prompt i prompt))
           (enumerate 0 images)) \<and>
      tr' = tr @ RunPdf2Image fb #
        map (\<lambda>(i, img). vision_call w img (page_prompt i prompt)) (enumerate 0 images)"
proof -
  from assms obtain images tr1 rs where
    a: "pdf_to_images w fb tr = (Inr images, tr1)" and n: "images \<noteq> []"
    and b: "analyze_pages w prompt (enumerate 0 images) [] tr1 = (Inr rs, tr')"
    and c: "answer = py_join sep rs"
    by (auto simp: io_bind_Inr split: if_splits)
  from pdf_to_images_Inr [OF a] analyze_pages_Inr [OF b] n c show ?thesis by auto
qed

lemma image_not_office: "x \<in> set IMAGE_TYPES \<Longrightarrow> x \<notin> set OFFICE_TYPES \<and> x \<noteq> py ''pdf''"
  by (auto simp: IMAGE_TYPES_def OFFICE_TYPES_def py_def)

lemma document_Inr:
  assumes ok: "document w archivo p l tr = (Inr reply, tr')"
  shows "\<exists>fb ft pre body answer wav a.
      archivo \<noteq> [] \<and>
      tr' = tr @ pre @ body @ [PostTTS answer (Form_default (py ''es'') l), RunFfmpeg wav] \<and>
      reply = \<lparr>ChatResponse.texto = answer, audio_b64 = a, idioma = Form_default (py ''es'') l\<rparr> \<and>
      answer \<noteq> [] \<and>
      (detect_file_type archivo \<notin> set OFFICE_TYPES \<and> pre = [] \<and> fb = archivo \<and>
         ft = detect_file_type archivo \<or>
       detect_file_type archivo \<in> set OFFICE_TYPES \<and> ft = py ''pdf'' \<and>
         (\<exists>ext. pre = [RunLibreOffice ext archivo])) \<and>
      (ft = py ''pdf'' \<and>
         (\<exists>images. convert_from_bytes w fb = Inr images \<and> images \<noteq> [] \<and>
            answer = py_join [0x0A, 0x0A]
              (map (\<lambda>(i, img). page_header i @
                      vision_text w img (page_prompt i (Form_default DOCUMENT_PROMPT p)))
                 (enumerate 0 images)) \<and>
            body = RunPdf2Image fb #
              map (\<lambda>(i, img). vision_call w img (page_prompt i (Form_default DOCUMENT_PROMPT p)))
                (enumerate 0 images)) \<or>
       ft \<noteq> py ''pdf'' \<and> ft \<in> set IMAGE_TYPES \<and>
         answer = vision_text w fb (Form_default DOCUMENT_PROMPT p) \<and>
         body = [vision_call w fb (Form_default DOCUMENT_PROMPT p)])"
proof -
  let ?prompt = "Form_default DOCUMENT_PROMPT p"
  let ?lang = "Form_default (py ''es'') l"
  from ok have ne: "archivo \<noteq> []"
    by (auto simp: document_def Let_def io_try_Inr)
  let ?pre = "if detect_file_type archivo \<in> set OFFICE_TYPES then
                io_bind (office_to_pdf w archivo (detect_file_type archivo))
                  (\<lambda>pdf_bytes. io_return (pdf_bytes, py ''pdf''))
              else io_return (archivo, detect_file_type archivo)"
  from ok ne obtain fb ft tr1 answer tr2 where
    pre: "?pre tr = (Inr (fb, ft), tr1)"
    and stage: "(if ft = py ''pdf'' then
           io_bind (pdf_to_images w fb)
             (\<lambda>images. if images = [] then io_raise (HTTPException 400 NO_PAGES)
                else io_bind (analyze_pages w ?prompt (enumerate 0 images) [])
                       (\<lambda>resultados. io_return (py_join [0x0A, 0x0A] resultados)))
         else if ft \<in> set IMAGE_TYPES then
           call_llm_vision w (image_to_base64 w fb) ?prompt None
         else io_raise (HTTPException 400 UNSUPPORTED)) tr1 = (Inr answer, tr2)"
    and answer: "answer \<noteq> []"
    and fin: "io_bind (call_tts w answer ?lang)
        (\<lambda>wav_bytes. io_bind (wav_to_ogg_base64 w wav_bytes)
           (\<lambda>audio_b64. io_return
              \<lparr>ChatResponse.texto = answer, audio_b64 = audio_b64, idioma = ?lang\<rparr>)) tr2 =
        (Inr reply, tr')"
    by (auto simp: document_def Let_def io_try_Inr io_bind_Inr split: if_splits)
  from finish_Inr [OF fin] obtain wav a where
    r: "reply = \<lparr>ChatResponse.texto = answer, audio_b64 = a, idioma = ?lang\<rparr>"
    and t: "tr' = tr2 @ [PostTTS answer ?lang, RunFfmpeg wav]"
    by blast
  from pre have p: "detect_file_type archivo \<notin> set OFFICE_TYPES \<and> tr1 = tr @ [] \<and> fb = archivo \<and>
         ft = detect_file_type archivo \<or>
       detect_file_type archivo \<in> set OFFICE_TYPES \<and> ft = py ''pdf'' \<and>
         (\<exists>ext. tr1 = tr @ [RunLibreOffice ext archivo])"
    by (auto simp: io_bind_Inr split: if_splits dest: office_to_pdf_Inr)
  then obtain pre where pre': "tr1 = tr @ pre"
    and p': "detect_file_type archivo \<notin> set OFFICE_TYPES \<and> pre = [] \<and> fb = archivo \<and>
         ft = detect_file_type archivo \<or>
       detect_file_type archivo \<in> set OFFICE_TYPES \<and> ft = py ''pdf'' \<and>
         (\<exists>ext. pre = [RunLibreOffice ext archivo])"
    by auto
  show ?thesis
  proof (cases "ft = py ''pdf''")
    case True
    with stage pdf_stage_Inr [of w fb "HTTPException 400 NO_PAGES" ?prompt "[0x0A, 0x0A]" tr1 answer tr2]
    obtain images where im: "convert_from_bytes w fb = Inr images" "images \<noteq> []"
      "answer = py_join [0x0A, 0x0A]
        (map (\<lambda>(i, img). page_header i @ vision_text w img (page_prompt i ?prompt))
           (enumerate 0 images))"
      "tr2 = tr1 @ RunPdf2Image fb #
        map (\<lambda>(i, img). vision_call w img (page_prompt i ?prompt)) (enumerate 0 images)"
      by auto
    let ?body = "RunPdf2Image fb #
        map (\<lambda>(i, img). vision_call w img (page_prompt i ?prompt)) (enumerate 0 images)"
    show ?thesis
      apply (rule exI [of _ fb], rule exI [of _ ft], rule exI [of _ pre], rule exI [of _ ?body],
          rule exI [of _ answer], rule exI [of _ wav], rule exI [of _ a])
      using True ne r t answer pre' p' im by auto
  next
    case False
    with stage have i: "ft \<in> set IMAGE_TYPES"
      and v: "call_llm_vision w (image_to_base64 w fb) ?prompt None tr1 = (Inr answer, tr2)"
      by (auto split: if_splits)
    let ?body = "[vision_call w fb ?prompt]"
    show ?thesis
      apply (rule exI [of _ fb], rule exI [of _ ft], rule exI [of _ pre], rule exI [of _ ?body],
          rule exI [of _ answer], rule exI [of _ wav], rule exI [of _ a])
      using call_llm_vision_Inr [OF v] False i ne r t answer pre' p' by auto
  qed
qed






subsection \<open>Empty answers of the vision model\<close>

lemma empty_answer_is_terminal:
  "py_strip (ChatRequest.texto request) \<noteq> [] \<Longrightarrow>
     call_llm w (ChatRequest.texto request) (system_prompt request) tr = (Inr [], tr1) \<Longrightarrow>
     chat w request tr = (Inl (HTTPException 500 NO_RESPONSE_LLM), tr1)"
  "b \<noteq> [] \<Longrightarrow>
     call_llm_vision w (image_to_base64 w b)
       (Form_default (py ''Describe esta imagen en detalle.'') p) None tr = (Inr [], tr1) \<Longrightarrow>
     image w b p l tr = (Inl (HTTPException 500 NO_RESPONSE_VISION), tr1)"
  "b \<noteq> [] \<Longrightarrow> detect_file_type b \<in> set IMAGE_TYPES \<Longrightarrow>
     call_llm_vision w (image_to_base64 w b) (Form_default DOCUMENT_PROMPT p) None tr =
       (Inr [], tr1) \<Longrightarrow>
     document w b p l tr = (Inl (HTTPException 500 NO_RESPONSE_VISION), tr1)"
  "b \<noteq> [] \<Longrightarrow> detect_file_type b \<in> set IMAGE_TYPES \<Longrightarrow>
     call_llm_vision w (image_to_base64 w b) PROMPT_CLASIFICACION None tr = (Inr [], tr1) \<Longrightarrow>
     classify w b l tr = (Inl (HTTPException 500 NO_RESPONSE_VISION), tr1)"
  using image_not_office
  by (auto simp: chat_def image_def document_def classify_def Let_def io_bind_def io_try_def
      io_raise_def io_return_def)

lemma pdf_text_never_empty:
  assumes "images \<noteq> []"
  shows "py_join sep (map (\<lambda>(i, img). page_header i @ f i img) (enumerate n images)) \<noteq> []"
proof -
  obtain img rest where i: "images = img # rest" using assms by (cases images) auto
  have h: "page_header n \<noteq> []" by (simp add: page_header_def)
  show ?thesis
    unfolding i using h by (cases rest) simp_all
qed

subsection \<open>The language of the reply\<close>

lemma tts_calls_append [simp]: "tts_calls (a @ b) = tts_calls a @ tts_calls b"
  by (simp add: tts_calls_def)

lemma tts_calls_Cons [simp]:
  "tts_calls (c # cs) = (if is_tts c then c # tts_calls cs else tts_calls cs)"
  by (simp add: tts_calls_def)

lemma tts_calls_Nil [simp]: "tts_calls [] = []"
  by (simp add: tts_calls_def)

lemma tts_calls_vision [simp]:
  "tts_calls (map (\<lambda>(i, img). vision_call w img (f i)) pages) = []"
  by (induction pages) (auto simp: vision_call_def)

lemma is_tts_vision [simp]: "\<not> is_tts (vision_call w img q)"
  by (simp add: vision_call_def)

lemma call_llm_Inr:
  "call_llm w t s tr = (Inr r, tr') \<Longrightarrow> \<exists>sys. tr' = tr @ [PostLLM sys t]"
  by (auto simp: call_llm_def Let_def io_bind_Inr split: http.splits if_splits)

lemma call_stt_Inr:
  "call_stt w b f tr = (Inr body, tr') \<Longrightarrow>
     (\<exists>t. post_stt w b f = Response 200 t body) \<and> tr' = tr @ [PostSTT b f]"
  by (auto simp: call_stt_def io_bind_Inr split: http.splits if_splits)

lemma defaults_nonempty:
  "or_default x (py ''es'') \<noteq> []" "Form_default (py ''es'') x \<noteq> []"
  by (auto simp: or_default_def Form_default_def py_def split: option.splits)

lemma chat_Inr:
  assumes "chat w request tr = (Inr reply, tr')"
  shows "ChatResponse.idioma reply = or_default (ChatRequest.idioma request) (py ''es'') \<and>
    tts_calls tr' =
      tts_calls tr @ [PostTTS (ChatResponse.texto reply) (ChatResponse.idioma reply)]"
proof -
  let ?lang = "or_default (ChatRequest.idioma request) (py ''es'')"
  from assms obtain answer tr1 where
    a: "call_llm w (ChatRequest.texto request) (system_prompt request) tr = (Inr answer, tr1)"
    and f: "io_bind (call_tts w answer ?lang)
        (\<lambda>wav_bytes. io_bind (wav_to_ogg_base64 w wav_bytes)
           (\<lambda>audio_b64. io_return
              \<lparr>ChatResponse.texto = answer, audio_b64 = audio_b64, idioma = ?lang\<rparr>)) tr1 =
        (Inr reply, tr')"
    by (auto simp: chat_def Let_def io_try_Inr io_bind_Inr split: if_splits)
  from call_llm_Inr [OF a] finish_Inr [OF f] show ?thesis by auto
qed

lemma image_Inr:
  assumes "image w b p l tr = (Inr reply, tr')"
  shows "ChatResponse.idioma reply = Form_default (py ''es'') l \<and>
    tts_calls tr' =
      tts_calls tr @ [PostTTS (ChatResponse.texto reply) (ChatResponse.idioma reply)]"
proof -
  let ?lang = "Form_default (py ''es'') l"
  let ?prompt = "Form_default (py ''Describe esta imagen en detalle.'') p"
  from assms obtain answer tr1 where
    a: "call_llm_vision w (image_to_base64 w b) ?prompt None tr = (Inr answer, tr1)"
    and f: "io_bind (call_tts w answer ?lang)
        (\<lambda>wav_bytes. io_bind (wav_to_ogg_base64 w wav_bytes)
           (\<lambda>audio_b64. io_return
              \<lparr>ChatResponse.texto = answer, audio_b64 = audio_b64, idioma = ?lang\<rparr>)) tr1 =
        (Inr reply, tr')"
    by (auto simp: image_def Let_def io_try_Inr io_bind_Inr split: if_splits)
  from call_llm_vision_Inr [OF a] finish_Inr [OF f] show ?thesis by auto
qed

lemma document_language:
  assumes "document w b p l tr = (Inr reply, tr')"
  shows "ChatResponse.idioma reply = Form_default (py ''es'') l \<and>
    tts_calls tr' =
      tts_calls tr @ [PostTTS (ChatResponse.texto reply) (ChatResponse.idioma reply)]"
  using document_Inr [OF assms] by auto

lemma voice_Inr:
  assumes "voice w b f tr = (Inr reply, tr')"
  shows "\<exists>t body. post_stt w b (or_default f (py ''audio.ogg'')) = Response 200 t body \<and>
    ChatResponse.idioma reply = get_default (idioma_key body) (py ''es'')"
proof -
  let ?f = "or_default f (py ''audio.ogg'')"
  from assms obtain body tr1 where
    s: "call_stt w b ?f tr = (Inr body, tr1)"
    and r: "ChatResponse.idioma reply = get_default (idioma_key body) (py ''es'')"
    by (auto simp: voice_def Let_def io_try_Inr io_bind_Inr split: if_splits)
  from call_stt_Inr [OF s] r show ?thesis by auto
qed

lemma io_bind_InrE:
  assumes "io_bind m f tr = (Inr y, tr')"
  obtains x tr1 where "m tr = (Inr x, tr1)" "f x tr1 = (Inr y, tr')"
  using assms by (auto simp: io_bind_Inr)

lemma call_llm_vision_trace:
  "call_llm_vision w b p None tr = (r, tr') \<Longrightarrow> tr' = tr @ [PostVision VISION_SYSTEM p b]"
  using call_llm_vision_run [of w b p tr] by simp

lemma classify_Inr:
  assumes "classify w b l tr = (Inr reply, tr')"
  shows "ClassifyResponse.idioma reply = Form_default (py ''es'') l \<and>
    tts_calls tr' =
      tts_calls tr @ [PostTTS (ClassifyResponse.texto reply) (ClassifyResponse.idioma reply)]"
proof -
  let ?lang = "Form_default (py ''es'') l"
  let ?pre = "if detect_file_type b \<in> set OFFICE_TYPES then
                io_bind (office_to_pdf w b (detect_file_type b))
                  (\<lambda>pdf_bytes. io_return (pdf_bytes, py ''pdf''))
              else io_return (b, detect_file_type b)"
  let ?stage = "\<lambda>file_bytes file_type. if file_type = py ''pdf'' then
           io_bind (pdf_to_images w file_bytes)
             (\<lambda>images. case images of
                [] \<Rightarrow> io_raise (HTTPException 400 NO_PAGES)
              | first # _ \<Rightarrow> io_return (image_to_base64 w first))
         else if file_type \<in> set IMAGE_TYPES then io_return (image_to_base64 w file_bytes)
         else io_raise (HTTPException 400 UNSUPPORTED)"
  let ?fin = "\<lambda>respuesta_raw. if respuesta_raw = [] then
                            io_raise (HTTPException 500 NO_RESPONSE_VISION)
                          else
                            (case parse_clasificacion respuesta_raw of
                               Inl e \<Rightarrow> io_raise (Exception (py ''list index out of range''))
                             | Inr clasificacion \<Rightarrow>
                                 let (tipo, confianza, descripcion) = clasificacion;
                                     texto_audio =
                                       py ''Documento identificado como '' @ tipo @ py ''. '' @
                                       descripcion
                                 in
                                 io_bind (call_tts w texto_audio ?lang)
                                   (\<lambda>wav_bytes. io_bind (wav_to_ogg_base64 w wav_bytes)
                                      (\<lambda>audio_b64. io_return
                                         \<lparr>tipo_documento = tipo, confianza = confianza,
                                          descripcion = descripcion,
                                          ClassifyResponse.texto = texto_audio,
                                          audio_b64 = audio_b64, idioma = ?lang\<rparr>)))"
  from assms have ne: "b \<noteq> []"
    by (auto simp: classify_def Let_def io_try_Inr)
  from assms have run: "io_bind ?pre
      (\<lambda>(file_bytes, file_type). io_bind (?stage file_bytes file_type)
         (\<lambda>image_b64. io_bind (call_llm_vision w image_b64 PROMPT_CLASIFICACION None) ?fin))
      tr = (Inr reply, tr')"
    using ne by (simp add: classify_def Let_def io_try_Inr)
  from run obtain x tr1 where
    pre: "?pre tr = (Inr x, tr1)"
    and run1: "(case x of (file_bytes, file_type) \<Rightarrow> io_bind (?stage file_bytes file_type)
         (\<lambda>image_b64. io_bind (call_llm_vision w image_b64 PROMPT_CLASIFICACION None) ?fin))
      tr1 = (Inr reply, tr')"
    by (rule io_bind_InrE)
  obtain fb ft where x: "x = (fb, ft)" by (cases x)
  from run1 [unfolded x prod.case] obtain image_b64 tr2 where
    stage: "?stage fb ft tr1 = (Inr image_b64, tr2)"
    and run2: "io_bind (call_llm_vision w image_b64 PROMPT_CLASIFICACION None) ?fin tr2 =
      (Inr reply, tr')"
    by (rule io_bind_InrE)
  from run2 obtain raw tr3 where
    v: "call_llm_vision w image_b64 PROMPT_CLASIFICACION None tr2 = (Inr raw, tr3)"
    and run3: "?fin raw tr3 = (Inr reply, tr')"
    by (rule io_bind_InrE)
  from run3 obtain t c d where
    f: "io_bind (call_tts w (py ''Documento identificado como '' @ t @ py ''. '' @ d) ?lang)
        (\<lambda>wav_bytes. io_bind (wav_to_ogg_base64 w wav_bytes)
           (\<lambda>audio_b64. io_return
              \<lparr>tipo_documento = t, confianza = c, descripcion = d,
               ClassifyResponse.texto = py ''Documento identificado como '' @ t @ py ''. '' @ d,
               audio_b64 = audio_b64, idioma = ?lang\<rparr>)) tr3 = (Inr reply, tr')"
    by (auto simp: Let_def split: if_splits sum.splits prod.splits)
  from pre have 1: "tts_calls tr1 = tts_calls tr"
    by (auto simp: io_bind_Inr split: if_splits dest: office_to_pdf_Inr)
  have 2: "tts_calls tr2 = tts_calls tr1"
  proof (cases "ft = py ''pdf''")
    case True
    with stage obtain images trx where
      p: "pdf_to_images w fb tr1 = (Inr images, trx)"
      and q: "(case images of
                [] \<Rightarrow> io_raise (HTTPException 400 NO_PAGES)
              | first # _ \<Rightarrow> io_return (image_to_base64 w first)) trx = (Inr image_b64, tr2)"
      by (auto elim: io_bind_InrE)
    from q have "tr2 = trx" by (cases images) simp_all
    with pdf_to_images_Inr [OF p] show ?thesis by simp
  next
    case False
    with stage show ?thesis by (auto split: if_splits)
  qed
  from call_llm_vision_trace [OF v] have 3: "tts_calls tr3 = tts_calls tr2"
    by simp
  from finish_Inr [OF f] 1 2 3 show ?thesis by auto
qed

text \<open>
  C10.  The language of the reply is not always the language the caller supplied: \<open>chat\<close>
  computes \<open>request.idioma or "es"\<close>, so a request whose \<open>idioma\<close> is the empty text is
  answered in \<open>es\<close>.
\<close>

theorem reply_language_counterexample:
  "chat three_pages \<lparr>ChatRequest.texto = py ''hola'', idioma = Some [], system_prompt = None\<rparr> [] =
     (Inr \<lparr>ChatResponse.texto = py ''Hola.'', audio_b64 = py ''OGG'', idioma = py ''es''\<rparr>,
      [PostLLM (py ''Eres un asistente.'') (py ''hola''), PostTTS (py ''Hola.'') (py ''es''),
       RunFfmpeg ''WAV'']) \<and>
   py ''es'' \<noteq> []"
  by (simp add: chat_def Let_def three_pages_def call_llm_def run_defs py_def py_strip_def
      py_isspace_def NO_RESPONSE_LLM_def)

text \<open>
  C10, as the code has it.  On a successful \<open>chat\<close>, \<open>image\<close>, \<open>document\<close> or \<open>classify\<close>
  request the language of the reply is the language of the caller when one is given and is
  not empty, and \<open>es\<close> when it is missing or empty; it is never empty, and the synthesis is
  called exactly once, with the text and that language of the reply.  On a successful \<open>voice\<close>
  request the language of the reply is the \<open>idioma\<close> of the speech-to-text answer, \<open>es\<close> when
  the answer has no such key.
\<close>

theorem reply_language:
  "(chat w request tr = (Inr reply, tr') \<longrightarrow>
      ChatResponse.idioma reply = or_default (ChatRequest.idioma request) (py ''es'') \<and>
      ChatResponse.idioma reply \<noteq> [] \<and>
      tts_calls tr' =
        tts_calls tr @ [PostTTS (ChatResponse.texto reply) (ChatResponse.idioma reply)]) \<and>
   (image w b p l tr = (Inr reply, tr') \<longrightarrow>
      ChatResponse.idioma reply = Form_default (py ''es'') l \<and>
      ChatResponse.idioma reply \<noteq> [] \<and>
      tts_calls tr' =
        tts_calls tr @ [PostTTS (ChatResponse.texto reply) (ChatResponse.idioma reply)]) \<and>
   (document w b p l tr = (Inr reply, tr') \<longrightarrow>
      ChatResponse.idioma reply = Form_default (py ''es'') l \<and>
      ChatResponse.idioma reply \<noteq> [] \<and>
      tts_calls tr' =
        tts_calls tr @ [PostTTS (ChatResponse.texto reply) (ChatResponse.idioma reply)]) \<and>
   (classify w b l tr = (Inr creply, tr') \<longrightarrow>
      ClassifyResponse.idioma creply = Form_default (py ''es'') l \<and>
      ClassifyResponse.idioma creply \<noteq> [] \<and>
      tts_calls tr' =
        tts_calls tr @ [PostTTS (ClassifyResponse.texto creply) (ClassifyResponse.idioma creply)]) \<and>
   (voice w b f tr = (Inr reply, tr') \<longrightarrow>
      (\<exists>t body. post_stt w b (or_default f (py ''audio.ogg'')) = Response 200 t body \<and>
         ChatResponse.idioma reply = get_default (idioma_key body) (py ''es''))) \<and>
   or_default None (py ''es'') = py ''es'' \<and> or_default (Some []) (py ''es'') = py ''es'' \<and>
   (lang \<noteq> [] \<longrightarrow> or_default (Some lang) (py ''es'') = lang) \<and>
   Form_default (py ''es'') None = py ''es'' \<and> Form_default (py ''es'') (Some []) = py ''es'' \<and>
   (lang \<noteq> [] \<longrightarrow> Form_default (py ''es'') (Some lang) = lang) \<and>
   get_default None (py ''es'') = py ''es'' \<and> get_default (Some lang) (py ''es'') = lang"
proof -
  have 1: "ChatResponse.idioma reply = or_default (ChatRequest.idioma request) (py ''es'') \<and>
      ChatResponse.idioma reply \<noteq> [] \<and>
      tts_calls tr' =
        tts_calls tr @ [PostTTS (ChatResponse.texto reply) (ChatResponse.idioma reply)]"
    if "chat w request tr = (Inr reply, tr')"
    using chat_Inr [OF that] defaults_nonempty by simp
  have 2: "ChatResponse.idioma reply = Form_default (py ''es'') l \<and>
      ChatResponse.idioma reply \<noteq> [] \<and>
      tts_calls tr' =
        tts_calls tr @ [PostTTS (ChatResponse.texto reply) (ChatResponse.idioma reply)]"
    if "image w b p l tr = (Inr reply, tr')"
    using image_Inr [OF that] defaults_nonempty by simp
  have 3: "ChatResponse.idioma reply = Form_default (py ''es'') l \<and>
      ChatResponse.idioma reply \<noteq> [] \<and>
      tts_calls tr' =
        tts_calls tr @ [PostTTS (ChatResponse.texto reply) (ChatResponse.idioma reply)]"
    if "document w b p l tr = (Inr reply, tr')"
    using document_language [OF that] defaults_nonempty by simp
  have 4: "ClassifyResponse.idioma creply = Form_default (py ''es'') l \<and>
      ClassifyResponse.idioma creply \<noteq> [] \<and>
      tts_calls tr' =
        tts_calls tr @ [PostTTS (ClassifyResponse.texto creply) (ClassifyResponse.idioma creply)]"
    if "classify w b l tr = (Inr creply, tr')"
    using classify_Inr [OF that] defaults_nonempty by simp
  have 5: "\<exists>t body. post_stt w b (or_default f (py ''audio.ogg'')) = Response 200 t body \<and>
         ChatResponse.idioma reply = get_default (idioma_key body) (py ''es'')"
    if "voice w b f tr = (Inr reply, tr')"
    using that by (rule voice_Inr)
  have 6: "or_default None (py ''es'') = py ''es''" "or_default (Some []) (py ''es'') = py ''es''"
    "lang \<noteq> [] \<longrightarrow> or_default (Some lang) (py ''es'') = lang"
    "Form_default (py ''es'') None = py ''es''" "Form_default (py ''es'') (Some []) = py ''es''"
    "lang \<noteq> [] \<longrightarrow> Form_default (py ''es'') (Some lang) = lang"
    "get_default None (py ''es'') = py ''es''" "get_default (Some lang) (py ''es'') = lang"
    by (simp_all add: or_default_def Form_default_def get_default_def)
  from 1 2 3 4 5 6 show ?thesis by blast
qed

theorem reply_language_witness:
  "(\<exists>reply tr. chat three_pages
        \<lparr>ChatRequest.texto = py ''hola'', idioma = Some (py ''fr''), system_prompt = None\<rparr> [] =
        (Inr reply, tr) \<and>
      ChatResponse.idioma reply = py ''fr'' \<and>
      tts_calls tr = [PostTTS (py ''Hola.'') (py ''fr'')]) \<and>
   (\<exists>reply tr. voice three_pages ''OggS'' None [] = (Inr reply, tr) \<and>
      ChatResponse.idioma reply = py ''en'')"
proof -
  let ?req = "\<lparr>ChatRequest.texto = py ''hola'', idioma = Some (py ''fr''), system_prompt = None\<rparr>"
  let ?r = "\<lparr>ChatResponse.texto = py ''Hola.'', audio_b64 = py ''OGG'', idioma = py ''fr''\<rparr>"
  let ?tr = "[PostLLM (py ''Eres un asistente.'') (py ''hola''), PostTTS (py ''Hola.'') (py ''fr''),
       RunFfmpeg ''WAV'']"
  have ok: "chat three_pages ?req [] = (Inr ?r, ?tr)"
    by (simp add: chat_def Let_def three_pages_def call_llm_def run_defs py_def py_strip_def
      py_isspace_def NO_RESPONSE_LLM_def)
  have fr: "py ''fr'' \<noteq> []" by (simp add: py_def)
  from ok fr reply_language [where w = three_pages and request = ?req and tr = "[]"
      and reply = ?r and tr' = ?tr and lang = "py ''fr''"]
  have "ChatResponse.idioma ?r = py ''fr'' \<and> tts_calls ?tr = [PostTTS (py ''Hola.'') (py ''fr'')]"
    by simp
  with ok have first: "\<exists>reply tr. chat three_pages ?req [] = (Inr reply, tr) \<and>
      ChatResponse.idioma reply = py ''fr'' \<and>
      tts_calls tr = [PostTTS (py ''Hola.'') (py ''fr'')]"
    by blast
  let ?v = "\<lparr>ChatResponse.texto = py ''Hola.'', audio_b64 = py ''OGG'', idioma = py ''en''\<rparr>"
  let ?vtr = "[PostSTT ''OggS'' (py ''audio.ogg''), PostLLM (py ''Eres un asistente.'') (py ''hola''),
       PostTTS (py ''Hola.'') (py ''en''), RunFfmpeg ''WAV'']"
  have vok: "voice three_pages ''OggS'' None [] = (Inr ?v, ?vtr)"
    by (simp add: voice_def Let_def three_pages_def call_llm_def call_stt_def run_defs py_def
      NO_RESPONSE_LLM_def)
  have "post_stt three_pages ''OggS'' (or_default None (py ''audio.ogg'')) =
      Response 200 [] \<lparr>texto_key = Some (py ''hola''), idioma_key = Some (py ''en'')\<rparr>"
    by (simp add: three_pages_def)
  with vok reply_language [where w = three_pages and tr = "[]" and reply = ?v and tr' = ?vtr
      and b = "''OggS''" and f = None and lang = "py ''en''"]
  have "ChatResponse.idioma ?v = py ''en''"
    by simp
  with vok have second: "\<exists>reply tr. voice three_pages ''OggS'' None [] = (Inr reply, tr) \<and>
      ChatResponse.idioma reply = py ''en''"
    by blast
  from first second show ?thesis by blast
qed

text \<open>
  C7.  The reply of \<open>classify\<close> has three fields beyond those of the other replies, not two.
\<close>

theorem reply_fields_counterexample:
  "length (filter (\<lambda>k. k \<notin> set (map fst (ChatResponse_json
        \<lparr>ChatResponse.texto = py ''t'', audio_b64 = py ''a'', idioma = py ''es''\<rparr>)))
      (map fst (ClassifyResponse_json
        \<lparr>tipo_documento = py ''Otro'', confianza = py ''baja'', descripcion = py ''d'',
         ClassifyResponse.texto = py ''t'', audio_b64 = py ''a'', idioma = py ''es''\<rparr>))) = 3"
  by (simp add: ChatResponse_json_def ClassifyResponse_json_def py_def)

text \<open>
  C7, as the code has it.  The reply of \<open>chat\<close>, \<open>voice\<close>, \<open>image\<close> and \<open>document\<close> (a
  \<open>ChatResponse\<close>) has the three fields \<open>texto\<close>, \<open>audio_b64\<close>, \<open>idioma\<close>; the reply of
  \<open>classify\<close> (a \<open>ClassifyResponse\<close>) has these three and exactly three more,
  \<open>tipo_documento\<close>, \<open>confianza\<close>, \<open>descripcion\<close>.
\<close>

theorem reply_fields:
  "map fst (ChatResponse_json r) = [py ''texto'', py ''audio_b64'', py ''idioma''] \<and>
   map fst (ClassifyResponse_json c) =
     [py ''tipo_documento'', py ''confianza'', py ''descripcion''] @ map fst (ChatResponse_json r) \<and>
   filter (\<lambda>k. k \<notin> set (map fst (ChatResponse_json r))) (map fst (ClassifyResponse_json c)) =
     [py ''tipo_documento'', py ''confianza'', py ''descripcion''] \<and>
   distinct (map fst (ClassifyResponse_json c)) \<and>
   map_of (ClassifyResponse_json c) (py ''texto'') = Some (ClassifyResponse.texto c) \<and>
   map_of (ClassifyResponse_json c) (py ''audio_b64'') = Some (ClassifyResponse.audio_b64 c) \<and>
   map_of (ClassifyResponse_json c) (py ''idioma'') = Some (ClassifyResponse.idioma c)"
  by (simp add: ChatResponse_json_def ClassifyResponse_json_def py_def)

end
